theory Spec2Isabelle
  imports Complex_Main "HOL-Library.Char_ord" "HOL-Library.List_Lexorder"
begin

section \<open>Range utilities of \<open>validation_utils.py\<close>\<close>

text \<open>
  The numeric arguments of \<open>clamp\<close> and \<open>is_in_range\<close> are Python \<open>int | float\<close> values
  that are only ever compared. They are modelled as elements of an arbitrary linear order
  (\<open>'a::linorder\<close>): the unbounded integers and the floats that are numbers embed into one,
  and Python compares an \<open>int\<close> with a \<open>float\<close> by their exact values. The IEEE value
  \<open>nan\<close> is not ordered and is not an element of this model; the section on run-time
  values below has it, and the properties of \<open>clamp\<close> and \<open>is_in_range\<close> are proved
  there once more with it.

  Python's two-argument \<open>min(a, b)\<close> keeps \<open>a\<close> unless \<open>b < a\<close>, and \<open>max(a, b)\<close> keeps
  \<open>a\<close> unless \<open>b > a\<close>.
\<close>

definition py_min :: "'a::linorder \<Rightarrow> 'a \<Rightarrow> 'a" where
  "py_min a b = (if b < a then b else a)"

definition py_max :: "'a::linorder \<Rightarrow> 'a \<Rightarrow> 'a" where
  "py_max a b = (if b > a then b else a)"

text \<open>\<^verbatim>\<open>return max(min_value, min(value, max_value))\<close>\<close>

definition clamp :: "'a::linorder \<Rightarrow> 'a \<Rightarrow> 'a \<Rightarrow> 'a" where
  "clamp value min_value max_value = py_max min_value (py_min value max_value)"

text \<open>
  \<^verbatim>\<open>if inclusive: return min_val <= value <= max_val\<close>
  \<^verbatim>\<open>else: return min_val < value < max_val\<close>
  A chained comparison is the conjunction of its two comparisons.
\<close>

definition is_in_range :: "'a::linorder \<Rightarrow> 'a \<Rightarrow> 'a \<Rightarrow> bool \<Rightarrow> bool" where
  "is_in_range value min_val max_val inclusive =
     (if inclusive then min_val \<le> value \<and> value \<le> max_val
      else min_val < value \<and> value < max_val)"

section \<open>Regular expressions as the source uses them\<close>

text \<open>
  A Python \<open>str\<close> is a sequence of Unicode code points. It is modelled as the list of
  these code points, each a natural number, so that \<open>length\<close> is Python's \<open>len\<close>.
  Python's code points end at \<open>U+10FFFF\<close>; the model leaves them unbounded, and what is
  proved for every list holds for every \<open>str\<close>. \<open>codepoints\<close> gives the code points of
  a string literal of this theory.
\<close>

type_synonym codepoint = nat

type_synonym pystr = "codepoint list"

definition codepoints :: "string \<Rightarrow> pystr" where
  "codepoints s = map of_char s"

text \<open>
  The source calls \<open>re.search\<close> and \<open>re.match\<close> with three constant patterns and no
  flags. Their constructs are the constructors of \<open>regex\<close>: the anchors \<open>^\<close> and \<open>$\<close>, a
  literal character, a class of character ranges \<open>[a-b...]\<close>, the class \<open>\d\<close>,
  concatenation, and the bounded repetition \<open>r{m,n}\<close> (\<open>r{m}\<close> is \<open>r{m,m}\<close>; a
  non-capturing group \<open>(?:r)\<close> is \<open>r\<close>).
\<close>

datatype regex =
    Bol
  | Eol
  | Lit char
  | CharSet "(char \<times> char) list"
  | Digit
  | Seq regex regex
  | Repeat regex nat nat

text \<open>
  A cursor is a position in the subject string together with the text that remains from
  that position on.
\<close>

type_synonym cursor = "nat \<times> pystr"

text \<open>A class \<open>[a-b...]\<close> matches a character whose code point lies in one of its ranges.\<close>

definition in_ranges :: "codepoint \<Rightarrow> (char \<times> char) list \<Rightarrow> bool" where
  "in_ranges c rs = list_ex (\<lambda>(lo, hi). of_char lo \<le> c \<and> c \<le> of_char hi) rs"

text \<open>
  On a \<open>str\<close> pattern and without the \<open>ASCII\<close> flag, \<open>\d\<close> matches every Unicode decimal
  digit (general category \<open>Nd\<close>): \<open>0\<close> to \<open>9\<close> and the decimal digits of the other
  scripts. The table lists them as ranges of code points; it is the one of Unicode 14.0,
  the version of the character database in CPython 3.11. Later versions of the database
  add the digits of further scripts.
\<close>

definition unicode_decimal_digits :: "(codepoint \<times> codepoint) list" where
  "unicode_decimal_digits =
     [(0x30, 0x39), (0x660, 0x669), (0x6F0, 0x6F9), (0x7C0, 0x7C9), (0x966, 0x96F),
      (0x9E6, 0x9EF), (0xA66, 0xA6F), (0xAE6, 0xAEF), (0xB66, 0xB6F), (0xBE6, 0xBEF),
      (0xC66, 0xC6F), (0xCE6, 0xCEF), (0xD66, 0xD6F), (0xDE6, 0xDEF), (0xE50, 0xE59),
      (0xED0, 0xED9), (0xF20, 0xF29), (0x1040, 0x1049), (0x1090, 0x1099), (0x17E0, 0x17E9),
      (0x1810, 0x1819), (0x1946, 0x194F), (0x19D0, 0x19D9), (0x1A80, 0x1A89),
      (0x1A90, 0x1A99), (0x1B50, 0x1B59), (0x1BB0, 0x1BB9), (0x1C40, 0x1C49),
      (0x1C50, 0x1C59), (0xA620, 0xA629), (0xA8D0, 0xA8D9), (0xA900, 0xA909),
      (0xA9D0, 0xA9D9), (0xA9F0, 0xA9F9), (0xAA50, 0xAA59), (0xABF0, 0xABF9),
      (0xFF10, 0xFF19), (0x104A0, 0x104A9), (0x10D30, 0x10D39), (0x11066, 0x1106F),
      (0x110F0, 0x110F9), (0x11136, 0x1113F), (0x111D0, 0x111D9), (0x112F0, 0x112F9),
      (0x11450, 0x11459), (0x114D0, 0x114D9), (0x11650, 0x11659), (0x116C0, 0x116C9),
      (0x11730, 0x11739), (0x118E0, 0x118E9), (0x11950, 0x11959), (0x11C50, 0x11C59),
      (0x11D50, 0x11D59), (0x11DA0, 0x11DA9), (0x16A60, 0x16A69), (0x16AC0, 0x16AC9),
      (0x16B50, 0x16B59), (0x1D7CE, 0x1D7FF), (0x1E140, 0x1E149), (0x1E2F0, 0x1E2F9),
      (0x1E950, 0x1E959), (0x1FBF0, 0x1FBF9)]"

definition is_decimal :: "codepoint \<Rightarrow> bool" where
  "is_decimal c = list_ex (\<lambda>(lo, hi). lo \<le> c \<and> c \<le> hi) unicode_decimal_digits"

text \<open>Consuming one character that satisfies \<open>p\<close>.\<close>

fun step_char :: "(codepoint \<Rightarrow> bool) \<Rightarrow> cursor \<Rightarrow> cursor list" where
  "step_char p (i, []) = []"
| "step_char p (i, c # cs) = (if p c then [(Suc i, cs)] else [])"

text \<open>\<open>iter k f\<close> runs the matcher \<open>f\<close> exactly \<open>k\<close> times in a row.\<close>

primrec iter :: "nat \<Rightarrow> (cursor \<Rightarrow> cursor list) \<Rightarrow> cursor \<Rightarrow> cursor list" where
  "iter 0 f cur = [cur]"
| "iter (Suc k) f cur = concat (map (iter k f) (f cur))"

text \<open>
  \<open>rmatch r cur\<close> lists every cursor at which a match of \<open>r\<close> that starts at \<open>cur\<close> can
  end, the greedy choice (more repetitions) first. Without the \<open>MULTILINE\<close> flag \<open>^\<close>
  matches at position 0 only, and \<open>$\<close> matches at the end of the string and also just
  before a newline (code point \<open>0x0A\<close>) that is the last character of the string.
\<close>

fun rmatch :: "regex \<Rightarrow> cursor \<Rightarrow> cursor list" where
  "rmatch Bol (i, rest) = (if i = 0 then [(i, rest)] else [])"
| "rmatch Eol (i, rest) = (if rest = [] \<or> rest = [0x0A] then [(i, rest)] else [])"
| "rmatch (Lit c) cur = step_char (\<lambda>x. x = of_char c) cur"
| "rmatch (CharSet rs) cur = step_char (\<lambda>x. in_ranges x rs) cur"
| "rmatch Digit cur = step_char is_decimal cur"
| "rmatch (Seq a b) cur = concat (map (rmatch b) (rmatch a cur))"
| "rmatch (Repeat r m n) cur = concat (map (\<lambda>k. iter k (rmatch r) cur) (rev [m..<Suc n]))"

text \<open>
  \<open>re.match\<close> tries the pattern at position 0 only; \<open>re.search\<close> tries every start
  position from 0 to the length of the string. Both return \<open>None\<close> when nothing matches
  and otherwise a match object, modelled by its span.
\<close>

definition re_match :: "regex \<Rightarrow> pystr \<Rightarrow> (nat \<times> nat) option" where
  "re_match r s = (case rmatch r (0, s) of [] \<Rightarrow> None | (e, rest) # more \<Rightarrow> Some (0, e))"

definition re_search :: "regex \<Rightarrow> pystr \<Rightarrow> (nat \<times> nat) option" where
  "re_search r s =
     (case concat (map (\<lambda>i. map (\<lambda>(e, rest). (i, e)) (rmatch r (i, drop i s)))
                       [0..<Suc (length s)])
      of [] \<Rightarrow> None | m # more \<Rightarrow> Some m)"

section \<open>Text validators of \<open>validation_utils.py\<close>\<close>

text \<open>
  \<^verbatim>\<open>if len(password) < min_length: return False\<close>
  \<^verbatim>\<open>if require_uppercase and not re.search(r'[A-Z]', password): return False\<close>
  \<^verbatim>\<open>if require_number and not re.search(r'\d', password): return False\<close>
  \<^verbatim>\<open>return True\<close>
  The defaults of the source are \<open>min_length = 8\<close>, \<open>require_number = True\<close> and
  \<open>require_uppercase = True\<close>. A match object is truthy and \<open>None\<close> is not.
\<close>

definition is_valid_password :: "pystr \<Rightarrow> int \<Rightarrow> bool \<Rightarrow> bool \<Rightarrow> bool" where
  "is_valid_password password min_length require_number require_uppercase =
     (if int (length password) < min_length then False
      else if require_uppercase \<and> re_search (CharSet [(CHR ''A'', CHR ''Z'')]) password = None
        then False
      else if require_number \<and> re_search Digit password = None then False
      else True)"

text \<open>\<^verbatim>\<open>pattern = r'^#(?:[0-9a-fA-F]{3}){1,2}$'\<close>\<close>

definition hex_color_pattern :: regex where
  "hex_color_pattern =
     Seq Bol (Seq (Lit CHR ''#'')
       (Seq (Repeat (Repeat (CharSet [(CHR ''0'', CHR ''9''), (CHR ''a'', CHR ''f''),
                                      (CHR ''A'', CHR ''F'')]) 3 3) 1 2)
            Eol))"

text \<open>\<^verbatim>\<open>return bool(re.match(pattern, color))\<close>\<close>

definition is_valid_hex_color :: "pystr \<Rightarrow> bool" where
  "is_valid_hex_color color = (re_match hex_color_pattern color \<noteq> None)"

text \<open>
  The characters that the class \<open>[0-9a-fA-F]\<close> of the pattern lists: the hexadecimal
  digits.
\<close>

definition is_hex_digit :: "codepoint \<Rightarrow> bool" where
  "is_hex_digit c = (c \<in> set (codepoints ''0123456789abcdefABCDEF''))"

text \<open>
  \<^verbatim>\<open>if len(text) < min_length: return False\<close>
  \<^verbatim>\<open>if max_length is not None and len(text) > max_length: return False\<close>
  \<^verbatim>\<open>return True\<close>
\<close>

definition validate_length :: "pystr \<Rightarrow> int \<Rightarrow> int option \<Rightarrow> bool" where
  "validate_length text min_length max_length =
     (if int (length text) < min_length then False
      else if (case max_length of None \<Rightarrow> False | Some m \<Rightarrow> int (length text) > m) then False
      else True)"

text \<open>
  \<open>all\<close> consumes its argument from the left and stops at the first false element.
\<close>

fun py_all :: "bool list \<Rightarrow> bool" where
  "py_all [] = True"
| "py_all (b # bs) = (if b then py_all bs else False)"

text \<open>
  \<^verbatim>\<open>return all(char in allowed_chars for char in text)\<close>
  Iterating a \<open>str\<close> yields its characters; for a single character \<open>char\<close>, the
  substring test \<open>char in allowed_chars\<close> is membership among the characters of
  \<open>allowed_chars\<close>.
\<close>

definition contains_only_allowed_chars :: "pystr \<Rightarrow> pystr \<Rightarrow> bool" where
  "contains_only_allowed_chars text allowed_chars =
     py_all (map (\<lambda>char. char \<in> set allowed_chars) text)"

section \<open>Letters and digits as the specification names them\<close>

text \<open>
  The specification speaks of uppercase letters and of decimal digits. Over ASCII the
  decimal digits are \<open>0\<close> to \<open>9\<close>. Over Unicode the uppercase letters (general category
  \<open>Lu\<close>) among the code points below 256 are \<open>A\<close> to \<open>Z\<close> and the accented capitals
  \<open>U+00C0\<close> to \<open>U+00D6\<close> and \<open>U+00D8\<close> to \<open>U+00DE\<close>.
\<close>

definition ascii_digit :: "codepoint \<Rightarrow> bool" where
  "ascii_digit c = (0x30 \<le> c \<and> c \<le> 0x39)"

definition latin1_uppercase_letter :: "codepoint \<Rightarrow> bool" where
  "latin1_uppercase_letter c =
     (0x41 \<le> c \<and> c \<le> 0x5A \<or> 0xC0 \<le> c \<and> c \<le> 0xD6 \<or> 0xD8 \<le> c \<and> c \<le> 0xDE)"

section \<open>The functions on run-time values\<close>

text \<open>
  Python checks types when an operation runs: \<open>len\<close> of a number, \<open>re.search\<close> in a
  number, or \<open>3 < 'a'\<close> raise \<open>TypeError\<close>. To state that the functions raise nothing
  on arguments of the annotated types, this section embeds the same six functions a
  second time, on run-time values, with every operation returning either an error or
  its result. The values are those that the annotations of the source mention: \<open>int\<close>,
  \<open>float\<close>, \<open>str\<close>, \<open>bool\<close> and \<open>None\<close>. A float is a real number (every finite float is
  one), an infinity or \<open>nan\<close>.
\<close>

datatype pyerror = TypeError

datatype pyfloat = Finite real | PosInf | NegInf | NaN

datatype pyval = PInt int | PFloat pyfloat | PStr pystr | PBool bool | PNone

text \<open>
  The order of floats: every comparison with \<open>nan\<close> is false, and the infinities lie
  below and above everything else.
\<close>

fun float_lt :: "pyfloat \<Rightarrow> pyfloat \<Rightarrow> bool" where
  "float_lt NaN y = False"
| "float_lt x NaN = False"
| "float_lt (Finite a) (Finite b) = (a < b)"
| "float_lt x NegInf = False"
| "float_lt NegInf y = True"
| "float_lt PosInf y = False"
| "float_lt x PosInf = True"

fun float_le :: "pyfloat \<Rightarrow> pyfloat \<Rightarrow> bool" where
  "float_le NaN y = False"
| "float_le x NaN = False"
| "float_le x y = (\<not> float_lt y x)"

text \<open>
  The numeric value of a number. \<open>bool\<close> is a subclass of \<open>int\<close>: \<open>False\<close> is 0 and
  \<open>True\<close> is 1. Python compares an \<open>int\<close> with a \<open>float\<close> by their exact values.
\<close>

fun num_of :: "pyval \<Rightarrow> pyfloat option" where
  "num_of (PInt i) = Some (Finite (of_int i))"
| "num_of (PFloat x) = Some x"
| "num_of (PBool b) = Some (Finite (of_bool b))"
| "num_of (PStr s) = None"
| "num_of PNone = None"

text \<open>
  \<open><\<close> and \<open><=\<close> compare two numbers by value and two strings lexicographically by
  code point; any other pair of these values raises \<open>TypeError\<close>. On them \<open>a > b\<close> is
  \<open>b < a\<close>.
\<close>

fun py_lt :: "pyval \<Rightarrow> pyval \<Rightarrow> pyerror + bool" where
  "py_lt (PStr s) (PStr t) = Inr (s < t)"
| "py_lt a b = (case (num_of a, num_of b) of
                  (Some x, Some y) \<Rightarrow> Inr (float_lt x y)
                | _ \<Rightarrow> Inl TypeError)"

fun py_le :: "pyval \<Rightarrow> pyval \<Rightarrow> pyerror + bool" where
  "py_le (PStr s) (PStr t) = Inr (s \<le> t)"
| "py_le a b = (case (num_of a, num_of b) of
                  (Some x, Some y) \<Rightarrow> Inr (float_le x y)
                | _ \<Rightarrow> Inl TypeError)"

definition py_gt :: "pyval \<Rightarrow> pyval \<Rightarrow> pyerror + bool" where
  "py_gt a b = py_lt b a"

text \<open>Of these values only a \<open>str\<close> has a length.\<close>

fun py_len :: "pyval \<Rightarrow> pyerror + int" where
  "py_len (PStr s) = Inr (int (length s))"
| "py_len v = Inl TypeError"

text \<open>The truth value that \<open>if\<close>, \<open>and\<close> and \<open>not\<close> read off a value.\<close>

fun truthy :: "pyval \<Rightarrow> bool" where
  "truthy (PBool b) = b"
| "truthy (PInt i) = (i \<noteq> 0)"
| "truthy (PFloat x) = (x \<noteq> Finite 0)"
| "truthy (PStr s) = (s \<noteq> [])"
| "truthy PNone = False"

text \<open>Sequencing: an error ends the evaluation, as a raised exception does.\<close>

definition and_then :: "pyerror + 'a \<Rightarrow> ('a \<Rightarrow> pyerror + 'b) \<Rightarrow> pyerror + 'b" where
  "and_then m f = (case m of Inl e \<Rightarrow> Inl e | Inr x \<Rightarrow> f x)"

text \<open>\<open>re.search\<close> and \<open>re.match\<close> expect a string to search in.\<close>

fun re_search_dyn :: "regex \<Rightarrow> pyval \<Rightarrow> pyerror + (nat \<times> nat) option" where
  "re_search_dyn r (PStr s) = Inr (re_search r s)"
| "re_search_dyn r v = Inl TypeError"

fun re_match_dyn :: "regex \<Rightarrow> pyval \<Rightarrow> pyerror + (nat \<times> nat) option" where
  "re_match_dyn r (PStr s) = Inr (re_match r s)"
| "re_match_dyn r v = Inl TypeError"

text \<open>
  \<open>char in allowed_chars\<close> needs a container on the right, here a string. The generator
  inside \<open>all\<close> evaluates it once per character of the text, until one is false: for an
  empty text it is never evaluated.
\<close>

fun py_in :: "codepoint \<Rightarrow> pyval \<Rightarrow> pyerror + bool" where
  "py_in c (PStr s) = Inr (c \<in> set s)"
| "py_in c v = Inl TypeError"

fun py_all_in :: "pystr \<Rightarrow> pyval \<Rightarrow> pyerror + pyval" where
  "py_all_in [] allowed_chars = Inr (PBool True)"
| "py_all_in (char # rest) allowed_chars =
     and_then (py_in char allowed_chars)
       (\<lambda>b. if b then py_all_in rest allowed_chars else Inr (PBool False))"

text \<open>
  The six functions, statement by statement as in the source. A chained comparison
  evaluates its second comparison only when the first is true.
\<close>

definition py_min_dyn :: "pyval \<Rightarrow> pyval \<Rightarrow> pyerror + pyval" where
  "py_min_dyn a b = and_then (py_lt b a) (\<lambda>c. Inr (if c then b else a))"

definition py_max_dyn :: "pyval \<Rightarrow> pyval \<Rightarrow> pyerror + pyval" where
  "py_max_dyn a b = and_then (py_gt b a) (\<lambda>c. Inr (if c then b else a))"

definition clamp_dyn :: "pyval \<Rightarrow> pyval \<Rightarrow> pyval \<Rightarrow> pyerror + pyval" where
  "clamp_dyn value min_value max_value =
     and_then (py_min_dyn value max_value) (\<lambda>m. py_max_dyn min_value m)"

definition is_valid_password_dyn :: "pyval \<Rightarrow> pyval \<Rightarrow> pyval \<Rightarrow> pyval \<Rightarrow> pyerror + pyval" where
  "is_valid_password_dyn password min_length require_number require_uppercase =
     and_then (py_len password) (\<lambda>n.
     and_then (py_lt (PInt n) min_length) (\<lambda>too_short.
       if too_short then Inr (PBool False)
       else and_then
         (if truthy require_uppercase
          then and_then (re_search_dyn (CharSet [(CHR ''A'', CHR ''Z'')]) password)
                 (\<lambda>m. Inr (m = None))
          else Inr False) (\<lambda>no_uppercase.
       if no_uppercase then Inr (PBool False)
       else and_then
         (if truthy require_number
          then and_then (re_search_dyn Digit password) (\<lambda>m. Inr (m = None))
          else Inr False) (\<lambda>no_number.
       if no_number then Inr (PBool False) else Inr (PBool True)))))"

definition is_valid_hex_color_dyn :: "pyval \<Rightarrow> pyerror + pyval" where
  "is_valid_hex_color_dyn color =
     and_then (re_match_dyn hex_color_pattern color) (\<lambda>m. Inr (PBool (m \<noteq> None)))"

definition is_in_range_dyn :: "pyval \<Rightarrow> pyval \<Rightarrow> pyval \<Rightarrow> pyval \<Rightarrow> pyerror + pyval" where
  "is_in_range_dyn value min_val max_val inclusive =
     (if truthy inclusive
      then and_then (py_le min_val value) (\<lambda>c.
             if c then and_then (py_le value max_val) (\<lambda>d. Inr (PBool d))
             else Inr (PBool False))
      else and_then (py_lt min_val value) (\<lambda>c.
             if c then and_then (py_lt value max_val) (\<lambda>d. Inr (PBool d))
             else Inr (PBool False)))"

definition validate_length_dyn :: "pyval \<Rightarrow> pyval \<Rightarrow> pyval \<Rightarrow> pyerror + pyval" where
  "validate_length_dyn text min_length max_length =
     and_then (py_len text) (\<lambda>n.
     and_then (py_lt (PInt n) min_length) (\<lambda>too_short.
       if too_short then Inr (PBool False)
       else if max_length \<noteq> PNone
         then and_then (py_gt (PInt n) max_length) (\<lambda>too_long.
                if too_long then Inr (PBool False) else Inr (PBool True))
       else Inr (PBool True)))"

fun contains_only_allowed_chars_dyn :: "pyval \<Rightarrow> pyval \<Rightarrow> pyerror + pyval" where
  "contains_only_allowed_chars_dyn (PStr text) allowed_chars = py_all_in text allowed_chars"
| "contains_only_allowed_chars_dyn v allowed_chars = Inl TypeError"

text \<open>
  The annotated types of the source: \<open>int | float\<close> is \<open>is_number\<close>, \<open>int\<close> is
  \<open>is_int\<close>, \<open>str\<close> is \<open>is_str\<close>, \<open>bool\<close> is \<open>is_bool\<close>, and the \<open>max_length\<close> that is an
  \<open>int\<close> or \<open>None\<close> is \<open>is_opt_int\<close>.
\<close>

fun is_number :: "pyval \<Rightarrow> bool" where
  "is_number (PInt i) = True"
| "is_number (PFloat x) = True"
| "is_number (PBool b) = True"
| "is_number v = False"

fun is_int :: "pyval \<Rightarrow> bool" where
  "is_int (PInt i) = True"
| "is_int (PBool b) = True"
| "is_int v = False"

fun is_str :: "pyval \<Rightarrow> bool" where
  "is_str (PStr s) = True"
| "is_str v = False"

fun is_bool :: "pyval \<Rightarrow> bool" where
  "is_bool (PBool b) = True"
| "is_bool v = False"

fun is_opt_int :: "pyval \<Rightarrow> bool" where
  "is_opt_int PNone = True"
| "is_opt_int v = is_int v"

text \<open>
  Equality of run-time values, Python's \<open>==\<close>: two numbers are equal when their values
  are (so \<open>1 == 1.0\<close> and \<open>True == 1\<close>), except that \<open>nan\<close> equals nothing; two strings
  are equal when they have the same characters; \<open>None\<close> equals only \<open>None\<close>.
\<close>

fun float_eq :: "pyfloat \<Rightarrow> pyfloat \<Rightarrow> bool" where
  "float_eq NaN y = False"
| "float_eq x NaN = False"
| "float_eq x y = (x = y)"

fun py_eq :: "pyval \<Rightarrow> pyval \<Rightarrow> bool" where
  "py_eq (PStr s) (PStr t) = (s = t)"
| "py_eq PNone PNone = True"
| "py_eq a b = (case (num_of a, num_of b) of
                  (Some x, Some y) \<Rightarrow> float_eq x y
                | _ \<Rightarrow> False)"

text \<open>
  Two invocations have equal arguments when each argument is the same value or an
  equal one, and equal results when both raise the same error or both return, the
  same value or an equal one.
\<close>

definition same_arg :: "pyval \<Rightarrow> pyval \<Rightarrow> bool" where
  "same_arg a b = (a = b \<or> py_eq a b)"

fun same_outcome :: "pyerror + pyval \<Rightarrow> pyerror + pyval \<Rightarrow> bool" where
  "same_outcome (Inl e) (Inl e') = (e = e')"
| "same_outcome (Inr r) (Inr r') = same_arg r r'"
| "same_outcome x y = False"

text \<open>
  What the operations of the source read of a value: its number if it is one, its
  characters if it is a string, and whether it is \<open>None\<close>.
\<close>

definition shape :: "pyval \<Rightarrow> pyfloat option \<times> pystr option \<times> bool" where
  "shape a = (num_of a, (case a of PStr s \<Rightarrow> Some s | _ \<Rightarrow> None), a = PNone)"

section \<open>The functions in an interpreter state\<close>

text \<open>
  The source assigns to no global and to no attribute, opens no file, and calls nothing
  but \<open>len\<close>, \<open>min\<close>, \<open>max\<close>, \<open>all\<close>, \<open>bool\<close>, \<open>re.search\<close> and \<open>re.match\<close>, names that
  are taken to be bound to the built-ins and to the standard library. Of these only the
  functions of module \<open>re\<close> have state: the module keeps a cache of compiled patterns.

  To state what the functions read and write, this section embeds them a third time,
  each taking the state of the interpreter and returning it with its result. The state
  is the cache of module \<open>re\<close> and, in the field \<open>world\<close>, everything else: the other
  modules, the globals and the objects of the program. The cache is a dictionary, which
  keeps its entries in the order of their insertion; it is modelled as the list of its
  entries, the oldest first. A pattern is written as its syntax tree, and so is its
  compiled form.
\<close>

record 'w interp =
  re_cache :: "(regex \<times> regex) list"
  world :: 'w

text \<open>
  \<open>re.search(pattern, s)\<close> and \<open>re.match(pattern, s)\<close> first compile the pattern (CPython
  3.11, \<^verbatim>\<open>re._compile\<close>): a pattern that has an entry in the cache is taken from there;
  any other is compiled and stored, after the oldest entry is dropped from a cache
  that already holds 512 entries.
\<close>

definition re_compile :: "regex \<Rightarrow> 'w interp \<Rightarrow> regex \<times> 'w interp" where
  "re_compile pattern st =
     (case map_of (re_cache st) pattern of
        Some p \<Rightarrow> (p, st)
      | None \<Rightarrow>
          (pattern,
           st\<lparr>re_cache :=
                (if 512 \<le> length (re_cache st) then tl (re_cache st) else re_cache st)
                @ [(pattern, pattern)]\<rparr>))"

definition re_search_st :: "regex \<Rightarrow> pystr \<Rightarrow> 'w interp \<Rightarrow> (nat \<times> nat) option \<times> 'w interp" where
  "re_search_st pattern s st = (case re_compile pattern st of (p, st') \<Rightarrow> (re_search p s, st'))"

definition re_match_st :: "regex \<Rightarrow> pystr \<Rightarrow> 'w interp \<Rightarrow> (nat \<times> nat) option \<times> 'w interp" where
  "re_match_st pattern s st = (case re_compile pattern st of (p, st') \<Rightarrow> (re_match p s, st'))"

text \<open>
  The six functions, statement by statement as in the source. A statement that calls
  nothing of module \<open>re\<close> passes the state on as it received it. In \<open>is_valid_password\<close>
  the operator \<open>and\<close> evaluates its right operand, the search, only when the left one
  is true.
\<close>

definition clamp_st :: "'a::linorder \<Rightarrow> 'a \<Rightarrow> 'a \<Rightarrow> 'w interp \<Rightarrow> 'a \<times> 'w interp" where
  "clamp_st value min_value max_value st = (py_max min_value (py_min value max_value), st)"

definition is_valid_password_st ::
  "pystr \<Rightarrow> int \<Rightarrow> bool \<Rightarrow> bool \<Rightarrow> 'w interp \<Rightarrow> bool \<times> 'w interp" where
  "is_valid_password_st password min_length require_number require_uppercase st =
     (if int (length password) < min_length then (False, st)
      else
        (case (if require_uppercase
               then (case re_search_st (CharSet [(CHR ''A'', CHR ''Z'')]) password st of
                       (m, st1) \<Rightarrow> (m = None, st1))
               else (False, st)) of
           (no_uppercase, st1) \<Rightarrow>
             if no_uppercase then (False, st1)
             else
               (case (if require_number
                      then (case re_search_st Digit password st1 of
                              (m, st2) \<Rightarrow> (m = None, st2))
                      else (False, st1)) of
                  (no_number, st2) \<Rightarrow> if no_number then (False, st2) else (True, st2))))"

definition is_valid_hex_color_st :: "pystr \<Rightarrow> 'w interp \<Rightarrow> bool \<times> 'w interp" where
  "is_valid_hex_color_st color st =
     (case re_match_st hex_color_pattern color st of (m, st') \<Rightarrow> (m \<noteq> None, st'))"

definition is_in_range_st ::
  "'a::linorder \<Rightarrow> 'a \<Rightarrow> 'a \<Rightarrow> bool \<Rightarrow> 'w interp \<Rightarrow> bool \<times> 'w interp" where
  "is_in_range_st value min_val max_val inclusive st =
     (if inclusive then (min_val \<le> value \<and> value \<le> max_val, st)
      else (min_val < value \<and> value < max_val, st))"

definition validate_length_st ::
  "pystr \<Rightarrow> int \<Rightarrow> int option \<Rightarrow> 'w interp \<Rightarrow> bool \<times> 'w interp" where
  "validate_length_st text min_length max_length st =
     (if int (length text) < min_length then (False, st)
      else if (case max_length of None \<Rightarrow> False | Some m \<Rightarrow> int (length text) > m)
        then (False, st)
      else (True, st))"

definition contains_only_allowed_chars_st ::
  "pystr \<Rightarrow> pystr \<Rightarrow> 'w interp \<Rightarrow> bool \<times> 'w interp" where
  "contains_only_allowed_chars_st text allowed_chars st =
     (py_all (map (\<lambda>char. char \<in> set allowed_chars) text), st)"

text \<open>
  A cache is coherent when each of its entries holds the compiled form of its own
  pattern. Module \<open>re\<close> stores no other entry, so every state that a program reaches
  through \<open>re.search\<close>, \<open>re.match\<close> and \<open>re.compile\<close> is coherent.
\<close>

definition cache_ok :: "'w interp \<Rightarrow> bool" where
  "cache_ok st = list_all (\<lambda>(pattern, compiled). compiled = pattern) (re_cache st)"

section \<open>Properties of the range utilities\<close>

text \<open>
  C2. For all numbers \<open>v\<close>, \<open>lo\<close>, \<open>hi\<close> with \<open>lo \<le> hi\<close>, the result of
  \<open>clamp v lo hi\<close> lies in the closed interval from \<open>lo\<close> to \<open>hi\<close>; clamping \<open>lo\<close>
  gives \<open>lo\<close> and clamping \<open>hi\<close> gives \<open>hi\<close>.
\<close>

theorem clamp_within_bounds:
  assumes "lo \<le> hi"
  shows "lo \<le> clamp v lo hi \<and> clamp v lo hi \<le> hi
         \<and> clamp lo lo hi = lo \<and> clamp hi lo hi = hi"
  using assms by (auto simp: clamp_def py_min_def py_max_def)

theorem clamp_within_bounds_witness:
  "(0::int) \<le> 10 \<and> 0 \<le> clamp 15 0 (10::int) \<and> clamp 15 0 (10::int) \<le> 10
   \<and> clamp 0 0 (10::int) = 0 \<and> clamp 10 0 (10::int) = 10"
proof -
  have le: "(0::int) \<le> 10" by simp
  from clamp_within_bounds [OF le, of 15] le show ?thesis by simp
qed

text \<open>
  C3. With \<open>inclusive = True\<close>, \<open>is_in_range v lo hi\<close> holds exactly when
  \<open>lo \<le> v \<le> hi\<close>; with \<open>inclusive = False\<close>, exactly when \<open>lo < v < hi\<close>, so the
  boundary values \<open>v = lo\<close> and \<open>v = hi\<close> are rejected in the exclusive case.
\<close>

theorem is_in_range_bounds:
  "(is_in_range v lo hi True \<longleftrightarrow> lo \<le> v \<and> v \<le> hi)
   \<and> (is_in_range v lo hi False \<longleftrightarrow> lo < v \<and> v < hi)
   \<and> \<not> is_in_range lo lo hi False \<and> \<not> is_in_range hi lo hi False"
  by (simp add: is_in_range_def)

text \<open>
  C9. With swapped bounds (\<open>min_value > max_value\<close>) \<open>clamp\<close> returns \<open>min_value\<close>,
  whatever the value is.
\<close>

theorem clamp_swapped_bounds:
  assumes "min_value > max_value"
  shows "clamp v min_value max_value = min_value"
  using assms by (auto simp: clamp_def py_min_def py_max_def)

theorem clamp_swapped_bounds_witness:
  "(5::int) > 1 \<and> clamp (3::int) 5 1 = 5"
proof -
  have gt: "(5::int) > 1" by simp
  from clamp_swapped_bounds [OF gt, of 3] gt show ?thesis by simp
qed

text \<open>
  C10. \<open>clamp\<close> is idempotent, with no assumption on the order of the bounds.
\<close>

theorem clamp_idempotent:
  "clamp (clamp v lo hi) lo hi = clamp v lo hi"
  by (auto simp: clamp_def py_min_def py_max_def)

section \<open>Character classes and searching\<close>

lemma in_single_range: "in_ranges c [(lo, hi)] \<longleftrightarrow> of_char lo \<le> c \<and> c \<le> of_char hi"
  by (simp add: in_ranges_def del: of_char_Char)

lemma range_enum:
  assumes "codepoints cs = [of_char lo ..< Suc (of_char hi)]"
  shows "in_ranges c [(lo, hi)] \<longleftrightarrow> c \<in> set (codepoints cs)"
proof -
  have "c \<in> set (codepoints cs) \<longleftrightarrow> c \<in> set [of_char lo ..< Suc (of_char hi)]"
    by (simp only: assms)
  also have "\<dots> \<longleftrightarrow> of_char lo \<le> c \<and> c \<le> of_char hi"
    by (simp only: set_upt atLeastLessThanSuc_atLeastAtMost atLeastAtMost_iff)
  finally show ?thesis
    by (simp only: in_single_range)
qed

lemma ranges_append: "in_ranges c (rs @ rs') \<longleftrightarrow> in_ranges c rs \<or> in_ranges c rs'"
  by (simp add: in_ranges_def)

lemma ranges_Cons: "in_ranges c (r # rs) \<longleftrightarrow> in_ranges c [r] \<or> in_ranges c rs"
  by (simp add: in_ranges_def)

lemma upper_class:
  "in_ranges c [(CHR ''A'', CHR ''Z'')] \<longleftrightarrow> c \<in> set (codepoints ''ABCDEFGHIJKLMNOPQRSTUVWXYZ'')"
  by (rule range_enum) (simp add: codepoints_def upt_rec)

lemma digit_class: "in_ranges c [(CHR ''0'', CHR ''9'')] \<longleftrightarrow> c \<in> set (codepoints ''0123456789'')"
  by (rule range_enum) (simp add: codepoints_def upt_rec)

lemma lower_hex_class: "in_ranges c [(CHR ''a'', CHR ''f'')] \<longleftrightarrow> c \<in> set (codepoints ''abcdef'')"
  by (rule range_enum) (simp add: codepoints_def upt_rec)

lemma upper_hex_class: "in_ranges c [(CHR ''A'', CHR ''F'')] \<longleftrightarrow> c \<in> set (codepoints ''ABCDEF'')"
  by (rule range_enum) (simp add: codepoints_def upt_rec)

lemma codepoints_append: "codepoints (xs @ ys) = codepoints xs @ codepoints ys"
  by (simp add: codepoints_def)

lemma hex_class:
  "in_ranges c [(CHR ''0'', CHR ''9''), (CHR ''a'', CHR ''f''), (CHR ''A'', CHR ''F'')]
   \<longleftrightarrow> c \<in> set (codepoints ''0123456789abcdefABCDEF'')"
proof -
  have "in_ranges c [(CHR ''0'', CHR ''9''), (CHR ''a'', CHR ''f''), (CHR ''A'', CHR ''F'')]
    \<longleftrightarrow> c \<in> set (codepoints ''0123456789'') \<or> c \<in> set (codepoints ''abcdef'')
        \<or> c \<in> set (codepoints ''ABCDEF'')"
    by (simp only: ranges_Cons [of c _ "_ # _"] digit_class lower_hex_class upper_hex_class)
  also have "\<dots> \<longleftrightarrow> c \<in> set (codepoints (''0123456789'' @ ''abcdef'' @ ''ABCDEF''))"
    by (simp only: codepoints_append set_append Un_iff)
  finally show ?thesis by simp
qed

text \<open>
  The decimal digits: below \<open>U+0660\<close> they are \<open>0\<close> to \<open>9\<close>; the Arabic-Indic digit three,
  \<open>U+0663\<close>, is one, and the letter \<open>A\<close> and the letter \<open>U+00C9\<close> (E with acute accent) are not.
\<close>

lemma is_decimal_ascii: "c < 0x660 \<Longrightarrow> is_decimal c \<longleftrightarrow> 0x30 \<le> c \<and> c \<le> 0x39"
  by (auto simp add: is_decimal_def unicode_decimal_digits_def)

lemma is_decimal_examples:
  "is_decimal 0x31 \<and> is_decimal 0x663 \<and> \<not> is_decimal 0x41 \<and> \<not> is_decimal 0xC9"
  by (simp add: is_decimal_def unicode_decimal_digits_def)

lemma step_char_nonempty: "step_char p (i, xs) \<noteq> [] \<longleftrightarrow> xs \<noteq> [] \<and> p (hd xs)"
  by (cases xs) simp_all

lemma first_match_None:
  "(case xs of [] \<Rightarrow> None | m # ms \<Rightarrow> Some m) = None \<longleftrightarrow> xs = []"
  by (cases xs) simp_all

lemma step_char_drop: "step_char p (i, drop i s) \<noteq> [] \<longleftrightarrow> i < length s \<and> p (s ! i)"
  by (auto simp: step_char_nonempty hd_drop_conv_nth)

lemma search_one_char:
  assumes "\<And>cur. rmatch r cur = step_char p cur"
  shows "re_search r s \<noteq> None \<longleftrightarrow> (\<exists>c\<in>set s. p c)"
proof -
  let ?f = "\<lambda>i. map (\<lambda>(e, rest). (i, e)) (rmatch r (i, drop i s))"
  have "re_search r s \<noteq> None \<longleftrightarrow> concat (map ?f [0..<Suc (length s)]) \<noteq> []"
    by (simp only: re_search_def first_match_None)
  also have "\<dots> \<longleftrightarrow> (\<exists>i\<in>set [0..<Suc (length s)]. step_char p (i, drop i s) \<noteq> [])"
    by (simp only: concat_eq_Nil_conv set_map assms ball_simps map_is_Nil_conv bex_simps)
  also have "\<dots> \<longleftrightarrow> (\<exists>i<length s. p (s ! i))"
    by (simp only: step_char_drop) auto
  also have "\<dots> \<longleftrightarrow> (\<exists>c\<in>set s. p c)"
    by (metis in_set_conv_nth)
  finally show ?thesis .
qed

lemma search_upper:
  "re_search (CharSet [(CHR ''A'', CHR ''Z'')]) s \<noteq> None
   \<longleftrightarrow> (\<exists>c\<in>set s. c \<in> set (codepoints ''ABCDEFGHIJKLMNOPQRSTUVWXYZ''))"
  by (subst search_one_char [where p = "\<lambda>x. in_ranges x [(CHR ''A'', CHR ''Z'')]"])
     (simp_all only: rmatch.simps upper_class)

lemma search_digit: "re_search Digit s \<noteq> None \<longleftrightarrow> (\<exists>c\<in>set s. is_decimal c)"
  by (subst search_one_char [where p = is_decimal]) (simp_all only: rmatch.simps)

section \<open>The hex colour pattern\<close>

lemma iter_step_char:
  "iter k (step_char p) (i, xs) =
     (if k \<le> length xs \<and> list_all p (take k xs) then [(i + k, drop k xs)] else [])"
proof (induction k arbitrary: i xs)
  case 0
  show ?case by simp
next
  case (Suc k)
  show ?case
  proof (cases xs)
    case Nil
    then show ?thesis by simp
  next
    case (Cons c cs)
    then show ?thesis by (simp add: Suc.IH)
  qed
qed

lemma concat_iter_0: "concat (map (iter 0 f) ys) = ys"
  by (induction ys) simp_all

lemma iter_once: "iter (Suc 0) f = f"
  by (rule ext) (simp add: concat_iter_0)

lemma iter_twice: "iter (Suc (Suc 0)) f cur = concat (map f (f cur))"
  by (simp only: iter.simps(2) [of "Suc 0"] iter_once)

lemma rmatch_CharSet: "rmatch (CharSet rs) = step_char (\<lambda>x. in_ranges x rs)"
  by (rule ext) simp

lemma rmatch_exactly:
  "rmatch (Repeat (CharSet rs) k k) (i, xs) =
     (if k \<le> length xs \<and> list_all (\<lambda>x. in_ranges x rs) (take k xs)
      then [(i + k, drop k xs)] else [])"
  by (simp only: rmatch.simps rmatch_CharSet iter_step_char upt_rec [of k "Suc k"]
        upt_rec [of "Suc k" "Suc k"]) simp

lemma two_groups:
  assumes T: "\<And>j ys. T (j, ys) =
     (if 3 \<le> length ys \<and> list_all p (take 3 ys) then [(j + 3, drop 3 ys)] else [])"
  shows "concat (map T (T (i :: nat, xs))) =
     (if 6 \<le> length xs \<and> list_all p (take 6 xs) then [(i + 6, drop 6 xs)] else [])"
proof (cases "3 \<le> length xs \<and> list_all p (take 3 xs)")
  case False
  have "take 6 xs = take 3 xs @ take 3 (drop 3 xs)"
    using take_add [of 3 3 xs] by simp
  with False have "\<not> (6 \<le> length xs \<and> list_all p (take 6 xs))"
    by auto
  moreover from False have "T (i, xs) = []"
    by (simp add: T)
  ultimately show ?thesis by simp
next
  case True
  have split: "take 6 xs = take 3 xs @ take 3 (drop 3 xs)"
    using take_add [of 3 3 xs] by simp
  from True have "T (i, xs) = [(i + 3, drop 3 xs)]"
    by (simp add: T)
  then have "concat (map T (T (i, xs))) = T (i + 3, drop 3 xs)"
    by simp
  also have "\<dots> = (if 3 \<le> length (drop 3 xs) \<and> list_all p (take 3 (drop 3 xs))
      then [(i + 3 + 3, drop 3 (drop 3 xs))] else [])"
    by (rule T)
  also have "\<dots> = (if 6 \<le> length xs \<and> list_all p (take 6 xs) then [(i + 6, drop 6 xs)] else [])"
    using True by (auto simp: split)
  finally show ?thesis .
qed

lemma rmatch_hex_groups:
  "rmatch (Repeat (Repeat (CharSet [(CHR ''0'', CHR ''9''), (CHR ''a'', CHR ''f''),
                                      (CHR ''A'', CHR ''F'')]) 3 3) 1 2) (i, xs) =
     (if 6 \<le> length xs \<and> list_all is_hex_digit (take 6 xs) then [(i + 6, drop 6 xs)] else [])
     @ (if 3 \<le> length xs \<and> list_all is_hex_digit (take 3 xs) then [(i + 3, drop 3 xs)] else [])"
proof -
  define T where "T = rmatch (Repeat (CharSet [(CHR ''0'', CHR ''9''), (CHR ''a'', CHR ''f''),
                                      (CHR ''A'', CHR ''F'')]) 3 3)"
  have T: "T (j, ys) = (if 3 \<le> length ys \<and> list_all is_hex_digit (take 3 ys) then [(j + 3, drop 3 ys)] else [])"
    for j ys
    unfolding T_def rmatch_exactly is_hex_digit_def hex_class [symmetric] ..
  have r: "rev [1..<Suc 2] = [2, 1::nat]" by (simp add: upt_rec)
  have "rmatch (Repeat T' 1 2) (i, xs) = iter 2 (rmatch T') (i, xs) @ iter 1 (rmatch T') (i, xs)" for T'
    by (simp only: rmatch.simps r list.map concat.simps append_Nil2)
  then have unfold: "rmatch (Repeat (Repeat (CharSet [(CHR ''0'', CHR ''9''), (CHR ''a'', CHR ''f''),
                                      (CHR ''A'', CHR ''F'')]) 3 3) 1 2) (i, xs)
      = iter 2 T (i, xs) @ iter 1 T (i, xs)"
    unfolding T_def .
  have one: "iter 1 T (i, xs) =
      (if 3 \<le> length xs \<and> list_all is_hex_digit (take 3 xs) then [(i + 3, drop 3 xs)] else [])"
    by (simp only: One_nat_def iter_once T)
  have "iter 2 T (i, xs) = concat (map T (T (i, xs)))"
    by (simp only: numeral_2_eq_2 iter_twice)
  also have "\<dots> = (if 6 \<le> length xs \<and> list_all is_hex_digit (take 6 xs) then [(i + 6, drop 6 xs)] else [])"
    using T by (rule two_groups)
  finally have two: "iter 2 T (i, xs) =
      (if 6 \<le> length xs \<and> list_all is_hex_digit (take 6 xs) then [(i + 6, drop 6 xs)] else [])" .
  show ?thesis
    unfolding unfold one two ..
qed

lemma anchored_after_char:
  "rmatch (Seq Bol (Seq (Lit h) (Seq g Eol))) (0, color) =
     (case color of [] \<Rightarrow> []
      | c # xs \<Rightarrow> if c = of_char h then concat (map (rmatch Eol) (rmatch g (Suc 0, xs))) else [])"
  by (cases color) simp_all

lemma rmatch_Eol_nonempty: "rmatch Eol (i, rest) \<noteq> [] \<longleftrightarrow> rest = [] \<or> rest = [0x0A]"
  by (cases "rest = [] \<or> rest = [0x0A]") (simp_all only: rmatch.simps if_True if_False, simp_all)

lemma concat_map_if_single: "concat (map f (if b then [x] else [])) \<noteq> [] \<longleftrightarrow> b \<and> f x \<noteq> []"
  by (cases b) simp_all

lemma re_match_nonempty: "re_match r s \<noteq> None \<longleftrightarrow> rmatch r (0, s) \<noteq> []"
  by (cases "rmatch r (0, s)") (auto simp: re_match_def)

lemma is_valid_hex_color_unfold:
  "is_valid_hex_color color \<longleftrightarrow>
     (\<exists>xs. color = of_char CHR ''#'' # xs \<and>
        ((6 \<le> length xs \<and> list_all is_hex_digit (take 6 xs) \<and> (drop 6 xs = [] \<or> drop 6 xs = [0x0A]))
         \<or> (3 \<le> length xs \<and> list_all is_hex_digit (take 3 xs) \<and> (drop 3 xs = [] \<or> drop 3 xs = [0x0A]))))"
proof (cases color)
  case Nil
  then show ?thesis
    unfolding is_valid_hex_color_def re_match_nonempty hex_color_pattern_def anchored_after_char
    by simp
next
  case (Cons c xs)
  have "is_valid_hex_color color \<longleftrightarrow> c = of_char CHR ''#'' \<and>
     concat (map (rmatch Eol)
         ((if 6 \<le> length xs \<and> list_all is_hex_digit (take 6 xs) then [(Suc 0 + 6, drop 6 xs)] else [])
          @ (if 3 \<le> length xs \<and> list_all is_hex_digit (take 3 xs) then [(Suc 0 + 3, drop 3 xs)] else []))) \<noteq> []"
    unfolding is_valid_hex_color_def re_match_nonempty hex_color_pattern_def anchored_after_char
      rmatch_hex_groups Cons
    by simp
  also have "\<dots> \<longleftrightarrow> c = of_char CHR ''#'' \<and>
      ((6 \<le> length xs \<and> list_all is_hex_digit (take 6 xs) \<and> (drop 6 xs = [] \<or> drop 6 xs = [0x0A]))
       \<or> (3 \<le> length xs \<and> list_all is_hex_digit (take 3 xs) \<and> (drop 3 xs = [] \<or> drop 3 xs = [0x0A])))"
    by (simp only: map_append concat_append append_is_Nil_conv de_Morgan_conj
        concat_map_if_single rmatch_Eol_nonempty conj_assoc)
  finally show ?thesis
    using Cons by simp
qed

lemma is_valid_hex_color_iff:
  "is_valid_hex_color color \<longleftrightarrow>
     (\<exists>ds tail. color = of_char CHR ''#'' # ds @ tail
        \<and> (length ds = 3 \<or> length ds = 6)
        \<and> list_all is_hex_digit ds
        \<and> (tail = [] \<or> tail = [0x0A]))"
proof
  assume "is_valid_hex_color color"
  then obtain xs where c: "color = of_char CHR ''#'' # xs"
    and xs: "(6 \<le> length xs \<and> list_all is_hex_digit (take 6 xs) \<and> (drop 6 xs = [] \<or> drop 6 xs = [0x0A]))
         \<or> (3 \<le> length xs \<and> list_all is_hex_digit (take 3 xs) \<and> (drop 3 xs = [] \<or> drop 3 xs = [0x0A]))"
    unfolding is_valid_hex_color_unfold by blast
  from xs obtain k where k: "k = 3 \<or> k = 6" "k \<le> length xs" "list_all is_hex_digit (take k xs)"
    "drop k xs = [] \<or> drop k xs = [0x0A]"
    by blast
  have "color = of_char CHR ''#'' # take k xs @ drop k xs" using c by simp
  moreover have "length (take k xs) = 3 \<or> length (take k xs) = 6" using k(1,2) by auto
  ultimately show "\<exists>ds tail. color = of_char CHR ''#'' # ds @ tail
        \<and> (length ds = 3 \<or> length ds = 6) \<and> list_all is_hex_digit ds \<and> (tail = [] \<or> tail = [0x0A])"
    using k(3,4) by blast
next
  assume "\<exists>ds tail. color = of_char CHR ''#'' # ds @ tail
        \<and> (length ds = 3 \<or> length ds = 6) \<and> list_all is_hex_digit ds \<and> (tail = [] \<or> tail = [0x0A])"
  then obtain ds tail where c: "color = of_char CHR ''#'' # ds @ tail"
    and l: "length ds = 3 \<or> length ds = 6" and h: "list_all is_hex_digit ds"
    and t: "tail = [] \<or> tail = [0x0A]"
    by blast
  from l show "is_valid_hex_color color"
  proof
    assume "length ds = 3"
    then have "3 \<le> length (ds @ tail) \<and> list_all is_hex_digit (take 3 (ds @ tail))
        \<and> (drop 3 (ds @ tail) = [] \<or> drop 3 (ds @ tail) = [0x0A])"
      using h t by simp
    with c show ?thesis unfolding is_valid_hex_color_unfold by blast
  next
    assume "length ds = 6"
    then have "6 \<le> length (ds @ tail) \<and> list_all is_hex_digit (take 6 (ds @ tail))
        \<and> (drop 6 (ds @ tail) = [] \<or> drop 6 (ds @ tail) = [0x0A])"
      using h t by simp
    with c show ?thesis unfolding is_valid_hex_color_unfold by blast
  qed
qed

text \<open>
  The spec's examples: \<open>#fff\<close> and \<open>#ffffff\<close> are accepted, \<open>#ff\<close> and \<open>fff\<close> are
  rejected.
\<close>

lemma is_valid_hex_color_examples:
  "is_valid_hex_color (codepoints ''#fff'') \<and> is_valid_hex_color (codepoints ''#ffffff'')
   \<and> \<not> is_valid_hex_color (codepoints ''#ff'') \<and> \<not> is_valid_hex_color (codepoints ''fff'')"
  by (simp add: is_valid_hex_color_unfold is_hex_digit_def codepoints_def)

text \<open>
  C1 states that \<open>is_valid_hex_color\<close> accepts exactly \<open>#\<close> followed by 3 or 6
  hexadecimal digits, and in particular rejects such a string followed by a newline.
  The source anchors its pattern with \<open>$\<close>, which also matches just before a final
  newline, so the function accepts \<open>#fff\<close> followed by a newline: by
  \<open>is_valid_hex_color_iff\<close> it accepts exactly the strings of the claim and those
  strings followed by one newline.
\<close>

theorem is_valid_hex_color_trailing_newline:
  "is_valid_hex_color (codepoints [CHR ''#'', CHR ''f'', CHR ''f'', CHR ''f'', CHR 0x0A]) = True"
  by (simp add: is_valid_hex_color_unfold is_hex_digit_def codepoints_def)

section \<open>Properties of the text validators\<close>

lemma py_all_iff: "py_all bs \<longleftrightarrow> (\<forall>b\<in>set bs. b)"
  by (induction bs) auto

lemma is_valid_password_iff:
  "is_valid_password password min_length require_number require_uppercase \<longleftrightarrow>
     \<not> (int (length password) < min_length
        \<or> (require_uppercase
            \<and> \<not> (\<exists>c\<in>set password. c \<in> set (codepoints ''ABCDEFGHIJKLMNOPQRSTUVWXYZ'')))
        \<or> (require_number \<and> \<not> (\<exists>c\<in>set password. is_decimal c)))"
proof -
  have up: "re_search (CharSet [(CHR ''A'', CHR ''Z'')]) password = None
      \<longleftrightarrow> \<not> (\<exists>c\<in>set password. c \<in> set (codepoints ''ABCDEFGHIJKLMNOPQRSTUVWXYZ''))"
    using search_upper [of password] by blast
  have dg: "re_search Digit password = None \<longleftrightarrow> \<not> (\<exists>c\<in>set password. is_decimal c)"
    using search_digit [of password] by blast
  show ?thesis
    unfolding is_valid_password_def up dg by auto
qed

lemma is_decimal_codepoints:
  "(\<exists>c\<in>set (codepoints s). is_decimal c) \<longleftrightarrow> (\<exists>c\<in>set s. c \<in> set ''0123456789'')"
proof -
  have "is_decimal (of_char c) \<longleftrightarrow> c \<in> set ''0123456789''" for c :: char
  proof -
    have "(of_char c :: nat) < 0x660"
      using nat_of_char_less_256 [of c] by linarith
    then have "is_decimal (of_char c) \<longleftrightarrow> 0x30 \<le> (of_char c :: nat) \<and> (of_char c :: nat) \<le> 0x39"
      by (rule is_decimal_ascii)
    also have "\<dots> \<longleftrightarrow> in_ranges (of_char c) [(CHR ''0'', CHR ''9'')]"
      by (simp add: in_single_range)
    also have "\<dots> \<longleftrightarrow> of_char c \<in> set (codepoints ''0123456789'')"
      by (rule digit_class)
    also have "\<dots> \<longleftrightarrow> c \<in> set ''0123456789''"
      unfolding codepoints_def set_map by (rule inj_image_mem_iff) (rule inj_of_char)
    finally show ?thesis .
  qed
  then show ?thesis
    by (simp add: codepoints_def)
qed

text \<open>
  C4. \<open>is_valid_password\<close> returns false when the password is shorter than
  \<open>min_length\<close>, or when \<open>require_uppercase\<close> is set and no character is one of the
  letters \<open>A\<close> to \<open>Z\<close>, or when \<open>require_number\<close> is set and no character is a Unicode
  decimal digit; otherwise it returns true. With the default parameters \<open>Abcdefg1\<close> is
  accepted, and \<open>abcdefg1\<close>, \<open>Abcdefgh\<close> and \<open>Ab1\<close> are rejected.
\<close>

theorem is_valid_password_criteria:
  "(is_valid_password password min_length require_number require_uppercase \<longleftrightarrow>
     \<not> (int (length password) < min_length
        \<or> (require_uppercase
            \<and> \<not> (\<exists>c\<in>set password. c \<in> set (codepoints ''ABCDEFGHIJKLMNOPQRSTUVWXYZ'')))
        \<or> (require_number \<and> \<not> (\<exists>c\<in>set password. is_decimal c))))
   \<and> is_valid_password (codepoints ''Abcdefg1'') 8 True True
   \<and> \<not> is_valid_password (codepoints ''abcdefg1'') 8 True True
   \<and> \<not> is_valid_password (codepoints ''Abcdefgh'') 8 True True
   \<and> \<not> is_valid_password (codepoints ''Ab1'') 8 True True"
proof -
  have a: "is_valid_password (codepoints ''Abcdefg1'') 8 True True"
    unfolding is_valid_password_iff is_decimal_codepoints by (simp add: codepoints_def)
  have b: "\<not> is_valid_password (codepoints ''abcdefg1'') 8 True True"
    unfolding is_valid_password_iff is_decimal_codepoints by (simp add: codepoints_def)
  have c: "\<not> is_valid_password (codepoints ''Abcdefgh'') 8 True True"
    unfolding is_valid_password_iff is_decimal_codepoints by (simp add: codepoints_def)
  have d: "\<not> is_valid_password (codepoints ''Ab1'') 8 True True"
    unfolding is_valid_password_iff is_decimal_codepoints by (simp add: codepoints_def)
  from is_valid_password_iff a b c d show ?thesis by blast
qed

theorem is_valid_password_criteria_witness:
  "is_valid_password (codepoints ''Passw0rd'') 8 True True
   \<and> is_valid_password (codepoints ''passw0rd'') 8 True False
   \<and> \<not> is_valid_password (codepoints ''PASSWORD'') 3 True True
   \<and> is_valid_password [0x41, 0x62, 0x63, 0x64, 0x65, 0x66, 0x67, 0x663] 8 True True
   \<and> \<not> is_valid_password [0xC9, 0x63, 0x64, 0x65, 0x66, 0x67, 0x68, 0x31] 8 True True"
  using is_valid_password_criteria [of "codepoints ''Passw0rd''" 8 True True]
    is_valid_password_criteria [of "codepoints ''passw0rd''" 8 True False]
    is_valid_password_criteria [of "codepoints ''PASSWORD''" 3 True True]
    is_valid_password_criteria [of "[0x41, 0x62, 0x63, 0x64, 0x65, 0x66, 0x67, 0x663]" 8 True True]
    is_valid_password_criteria [of "[0xC9, 0x63, 0x64, 0x65, 0x66, 0x67, 0x68, 0x31]" 8 True True]
  by (simp add: codepoints_def is_decimal_def unicode_decimal_digits_def)

text \<open>
  C4 as the specification words it speaks of uppercase letters and of decimal digits.
  Read over Unicode, the letter \<open>U+00C9\<close> (E with acute accent) is an uppercase letter,
  and the password made of it, \<open>cdefgh\<close> and \<open>1\<close> has the length, an uppercase letter and
  a digit, yet it is rejected: the class \<open>[A-Z]\<close> of the source holds the 26 letters
  \<open>A\<close> to \<open>Z\<close> only. Read over ASCII, the password \<open>Abcdefg\<close> followed by the
  Arabic-Indic digit \<open>U+0663\<close> has none of the digits \<open>0\<close> to \<open>9\<close>, yet it is accepted:
  \<open>\d\<close> matches the decimal digits of every script.
\<close>

theorem is_valid_password_counterexample:
  "latin1_uppercase_letter 0xC9 \<and> is_decimal 0x31
   \<and> \<not> int (length [0xC9, 0x63, 0x64, 0x65, 0x66, 0x67, 0x68, 0x31 :: codepoint]) < 8
   \<and> is_valid_password [0xC9, 0x63, 0x64, 0x65, 0x66, 0x67, 0x68, 0x31] 8 True True = False
   \<and> list_ex ascii_digit [0x41, 0x62, 0x63, 0x64, 0x65, 0x66, 0x67, 0x663] = False
   \<and> is_valid_password [0x41, 0x62, 0x63, 0x64, 0x65, 0x66, 0x67, 0x663] 8 True True = True"
  by (simp add: is_valid_password_iff latin1_uppercase_letter_def ascii_digit_def codepoints_def
      is_decimal_def unicode_decimal_digits_def)

text \<open>
  C5. \<open>validate_length\<close> returns false when the text is shorter than \<open>min_length\<close>,
  false when \<open>max_length\<close> is given and the text is longer than it, and true otherwise:
  without a \<open>max_length\<close> only the lower bound is checked, with one both are.
\<close>

theorem validate_length_bounds:
  "(validate_length text min_length None \<longleftrightarrow> min_length \<le> int (length text))
   \<and> (validate_length text min_length (Some m) \<longleftrightarrow>
        min_length \<le> int (length text) \<and> int (length text) \<le> m)
   \<and> validate_length (codepoints ''hello'') 1 (Some 10)
   \<and> \<not> validate_length (codepoints ''hello'') 6 (Some 10)
   \<and> \<not> validate_length (codepoints ''hello'') 0 (Some 4)
   \<and> validate_length (codepoints ''hello'') 0 None"
  by (auto simp: validate_length_def codepoints_def)

text \<open>
  C6. \<open>contains_only_allowed_chars\<close> returns true exactly when every character of the
  text occurs in \<open>allowed_chars\<close>; for the empty text it returns true.
\<close>

theorem contains_only_allowed_chars_iff:
  "(contains_only_allowed_chars text allowed_chars \<longleftrightarrow> (\<forall>c\<in>set text. c \<in> set allowed_chars))
   \<and> contains_only_allowed_chars [] allowed_chars"
  by (auto simp: contains_only_allowed_chars_def py_all_iff)

theorem contains_only_allowed_chars_iff_witness:
  "contains_only_allowed_chars (codepoints ''abc'') (codepoints ''abcdef'')
   \<and> \<not> contains_only_allowed_chars (codepoints ''abcz'') (codepoints ''abcdef'')
   \<and> contains_only_allowed_chars [] (codepoints ''anything'')"
  using contains_only_allowed_chars_iff [of "codepoints ''abc''" "codepoints ''abcdef''"]
    contains_only_allowed_chars_iff [of "codepoints ''abcz''" "codepoints ''abcdef''"]
    contains_only_allowed_chars_iff [of "[]" "codepoints ''anything''"]
  by (simp add: codepoints_def)

section \<open>No exception on well-typed arguments\<close>

lemma and_then_Inr [simp]: "and_then (Inr x) f = f x"
  by (simp add: and_then_def)

lemma and_then_Inl [simp]: "and_then (Inl e) f = Inl e"
  by (simp add: and_then_def)

lemma is_number_num_of: "is_number v \<longleftrightarrow> (\<exists>x. num_of v = Some x)"
  by (cases v) simp_all

lemma is_int_number: "is_int v \<Longrightarrow> is_number v"
  by (cases v) simp_all

lemma py_lt_numbers: "is_number a \<Longrightarrow> is_number b \<Longrightarrow> \<exists>c. py_lt a b = Inr c"
  by (cases a; cases b) simp_all

lemma py_le_numbers: "is_number a \<Longrightarrow> is_number b \<Longrightarrow> \<exists>c. py_le a b = Inr c"
  by (cases a; cases b) simp_all

lemma py_gt_numbers: "is_number a \<Longrightarrow> is_number b \<Longrightarrow> \<exists>c. py_gt a b = Inr c"
  unfolding py_gt_def by (rule py_lt_numbers)

lemma py_min_dyn_numbers:
  assumes "is_number a" "is_number b"
  shows "\<exists>r. py_min_dyn a b = Inr r \<and> is_number r"
proof -
  from assms obtain c where c: "py_lt b a = Inr c" using py_lt_numbers by blast
  from assms show ?thesis by (simp add: py_min_dyn_def c del: py_lt.simps)
qed

lemma py_max_dyn_numbers:
  assumes "is_number a" "is_number b"
  shows "\<exists>r. py_max_dyn a b = Inr r \<and> is_number r"
proof -
  from assms obtain c where c: "py_gt b a = Inr c" using py_gt_numbers by blast
  from assms show ?thesis by (simp add: py_max_dyn_def c)
qed

lemma clamp_dyn_total:
  assumes "is_number value" "is_number min_value" "is_number max_value"
  shows "\<exists>r. clamp_dyn value min_value max_value = Inr r \<and> is_number r"
proof -
  from assms obtain m where m: "py_min_dyn value max_value = Inr m" "is_number m"
    using py_min_dyn_numbers by blast
  with assms(2) show ?thesis
    by (simp add: clamp_dyn_def py_max_dyn_numbers)
qed

lemma is_valid_password_dyn_total:
  assumes "is_str password" "is_int min_length" "is_bool require_number" "is_bool require_uppercase"
  shows "\<exists>b. is_valid_password_dyn password min_length require_number require_uppercase = Inr (PBool b)"
proof -
  from assms(1) obtain s where s: "password = PStr s" by (cases password) simp_all
  have "is_number (PInt (int (length s)))" by simp
  with assms(2) obtain c where c: "py_lt (PInt (int (length s))) min_length = Inr c"
    using py_lt_numbers is_int_number by blast
  show ?thesis
    unfolding is_valid_password_dyn_def s by (auto simp add: c simp del: py_lt.simps)
qed

lemma is_valid_hex_color_dyn_total:
  assumes "is_str color"
  shows "\<exists>b. is_valid_hex_color_dyn color = Inr (PBool b)"
  using assms by (cases color) (auto simp add: is_valid_hex_color_dyn_def)

lemma is_in_range_dyn_total:
  assumes "is_number value" "is_number min_val" "is_number max_val" "is_bool inclusive"
  shows "\<exists>b. is_in_range_dyn value min_val max_val inclusive = Inr (PBool b)"
proof -
  from assms obtain c1 where c1: "py_le min_val value = Inr c1"
    using py_le_numbers by blast
  from assms obtain d1 where d1: "py_le value max_val = Inr d1"
    using py_le_numbers by blast
  from assms obtain c2 where c2: "py_lt min_val value = Inr c2"
    using py_lt_numbers by blast
  from assms obtain d2 where d2: "py_lt value max_val = Inr d2"
    using py_lt_numbers by blast
  show ?thesis
    by (auto simp add: is_in_range_dyn_def c1 d1 c2 d2 simp del: py_lt.simps py_le.simps)
qed

lemma validate_length_dyn_total:
  assumes "is_str text" "is_int min_length" "is_opt_int max_length"
  shows "\<exists>b. validate_length_dyn text min_length max_length = Inr (PBool b)"
proof -
  from assms(1) obtain s where s: "text = PStr s" by (cases "text") simp_all
  have n: "is_number (PInt (int (length s)))" by simp
  with assms(2) obtain c where c: "py_lt (PInt (int (length s))) min_length = Inr c"
    using py_lt_numbers is_int_number by blast
  show ?thesis
  proof (cases "max_length = PNone")
    case True
    then show ?thesis unfolding validate_length_dyn_def s by (auto simp add: c simp del: py_lt.simps)
  next
    case False
    with assms(3) have "is_number max_length" by (cases max_length) simp_all
    with n obtain d where d: "py_gt (PInt (int (length s))) max_length = Inr d"
      using py_gt_numbers by blast
    from False show ?thesis
      unfolding validate_length_dyn_def s by (auto simp add: c d simp del: py_lt.simps)
  qed
qed

lemma py_all_in_total: "\<exists>b. py_all_in text (PStr allowed) = Inr (PBool b)"
  by (induction "text") auto

lemma contains_only_allowed_chars_dyn_total:
  assumes "is_str text" "is_str allowed_chars"
  shows "\<exists>b. contains_only_allowed_chars_dyn text allowed_chars = Inr (PBool b)"
proof -
  from assms obtain s a where "text = PStr s" "allowed_chars = PStr a"
    by (cases "text"; cases allowed_chars) simp_all
  then show ?thesis by (simp add: py_all_in_total)
qed

text \<open>
  On arguments of the annotated types the functions on run-time values return what the
  typed functions of the first sections return.
\<close>

lemma clamp_dyn_int: "clamp_dyn (PInt v) (PInt lo) (PInt hi) = Inr (PInt (clamp v lo hi))"
  by (simp add: clamp_dyn_def py_min_dyn_def py_max_dyn_def py_gt_def clamp_def py_min_def py_max_def)

lemma clamp_dyn_float:
  "clamp_dyn (PFloat (Finite v)) (PFloat (Finite lo)) (PFloat (Finite hi))
     = Inr (PFloat (Finite (clamp v lo hi)))"
  by (simp add: clamp_dyn_def py_min_dyn_def py_max_dyn_def py_gt_def clamp_def py_min_def py_max_def)

lemma is_in_range_dyn_int:
  "is_in_range_dyn (PInt v) (PInt lo) (PInt hi) (PBool inclusive)
     = Inr (PBool (is_in_range v lo hi inclusive))"
  by (auto simp add: is_in_range_dyn_def is_in_range_def)

lemma is_in_range_dyn_float:
  "is_in_range_dyn (PFloat (Finite v)) (PFloat (Finite lo)) (PFloat (Finite hi)) (PBool inclusive)
     = Inr (PBool (is_in_range v lo hi inclusive))"
  by (auto simp add: is_in_range_dyn_def is_in_range_def)

lemma is_valid_password_dyn_str:
  "is_valid_password_dyn (PStr password) (PInt min_length) (PBool require_number)
       (PBool require_uppercase)
     = Inr (PBool (is_valid_password password min_length require_number require_uppercase))"
  by (auto simp add: is_valid_password_dyn_def is_valid_password_def)

lemma is_valid_hex_color_dyn_str:
  "is_valid_hex_color_dyn (PStr color) = Inr (PBool (is_valid_hex_color color))"
  by (simp add: is_valid_hex_color_dyn_def is_valid_hex_color_def)

lemma validate_length_dyn_str:
  "validate_length_dyn (PStr str) (PInt min_length) PNone
     = Inr (PBool (validate_length str min_length None))"
  "validate_length_dyn (PStr str) (PInt min_length) (PInt m)
     = Inr (PBool (validate_length str min_length (Some m)))"
  by (auto simp add: validate_length_dyn_def validate_length_def py_gt_def)

lemma py_all_in_str:
  "py_all_in str (PStr allowed) = Inr (PBool (py_all (map (\<lambda>char. char \<in> set allowed) str)))"
  by (induction str) simp_all

lemma contains_only_allowed_chars_dyn_str:
  "contains_only_allowed_chars_dyn (PStr str) (PStr allowed)
     = Inr (PBool (contains_only_allowed_chars str allowed))"
  by (simp add: contains_only_allowed_chars_def py_all_in_str)

text \<open>
  C7. Every public function is total on well-typed input: for arguments of the
  annotated types \<open>clamp\<close> returns a number and the five validators return a boolean;
  no \<open>TypeError\<close> is raised.
\<close>

theorem public_functions_total:
  "(is_number v \<and> is_number lo \<and> is_number hi \<longrightarrow>
      (\<exists>r. clamp_dyn v lo hi = Inr r \<and> is_number r))
   \<and> (is_str password \<and> is_int n \<and> is_bool rn \<and> is_bool ru \<longrightarrow>
      (\<exists>b. is_valid_password_dyn password n rn ru = Inr (PBool b)))
   \<and> (is_str color \<longrightarrow> (\<exists>b. is_valid_hex_color_dyn color = Inr (PBool b)))
   \<and> (is_number w \<and> is_number lo' \<and> is_number hi' \<and> is_bool inclusive \<longrightarrow>
      (\<exists>b. is_in_range_dyn w lo' hi' inclusive = Inr (PBool b)))
   \<and> (is_str str \<and> is_int n' \<and> is_opt_int m \<longrightarrow>
      (\<exists>b. validate_length_dyn str n' m = Inr (PBool b)))
   \<and> (is_str str' \<and> is_str allowed \<longrightarrow>
      (\<exists>b. contains_only_allowed_chars_dyn str' allowed = Inr (PBool b)))"
proof (intro conjI impI)
  assume "is_number v \<and> is_number lo \<and> is_number hi"
  then show "\<exists>r. clamp_dyn v lo hi = Inr r \<and> is_number r"
    by (simp add: clamp_dyn_total)
next
  assume "is_str password \<and> is_int n \<and> is_bool rn \<and> is_bool ru"
  then show "\<exists>b. is_valid_password_dyn password n rn ru = Inr (PBool b)"
    by (simp add: is_valid_password_dyn_total)
next
  assume "is_str color"
  then show "\<exists>b. is_valid_hex_color_dyn color = Inr (PBool b)"
    by (rule is_valid_hex_color_dyn_total)
next
  assume "is_number w \<and> is_number lo' \<and> is_number hi' \<and> is_bool inclusive"
  then show "\<exists>b. is_in_range_dyn w lo' hi' inclusive = Inr (PBool b)"
    by (simp add: is_in_range_dyn_total)
next
  assume "is_str str \<and> is_int n' \<and> is_opt_int m"
  then show "\<exists>b. validate_length_dyn str n' m = Inr (PBool b)"
    by (simp add: validate_length_dyn_total)
next
  assume "is_str str' \<and> is_str allowed"
  then show "\<exists>b. contains_only_allowed_chars_dyn str' allowed = Inr (PBool b)"
    by (simp add: contains_only_allowed_chars_dyn_total)
qed

theorem public_functions_total_witness:
  "(\<exists>r. clamp_dyn (PInt 15) (PInt 0) (PFloat (Finite 10)) = Inr r \<and> is_number r)
   \<and> (\<exists>b. is_valid_password_dyn (PStr (codepoints ''Abcdefg1'')) (PInt 8) (PBool True) (PBool True)
           = Inr (PBool b))
   \<and> (\<exists>b. is_valid_hex_color_dyn (PStr (codepoints ''#fff'')) = Inr (PBool b))
   \<and> (\<exists>b. is_in_range_dyn (PFloat NaN) (PInt 0) (PFloat PosInf) (PBool False) = Inr (PBool b))
   \<and> (\<exists>b. validate_length_dyn (PStr (codepoints ''hello'')) (PInt 1) PNone = Inr (PBool b))
   \<and> (\<exists>b. contains_only_allowed_chars_dyn (PStr (codepoints ''abc'')) (PStr (codepoints ''abcdef'')) = Inr (PBool b))"
  using public_functions_total [where v = "PInt 15" and lo = "PInt 0" and hi = "PFloat (Finite 10)"
      and password = "PStr (codepoints ''Abcdefg1'')" and n = "PInt 8" and rn = "PBool True"
      and ru = "PBool True" and color = "PStr (codepoints ''#fff'')"
      and w = "PFloat NaN" and lo' = "PInt 0" and hi' = "PFloat PosInf"
      and inclusive = "PBool False"
      and str = "PStr (codepoints ''hello'')" and n' = "PInt 1" and m = PNone
      and str' = "PStr (codepoints ''abc'')" and allowed = "PStr (codepoints ''abcdef'')"]
  by simp

section \<open>The range utilities on every number\<close>

text \<open>
  The properties of \<open>clamp\<close> and \<open>is_in_range\<close> proved above over a linear order also
  hold on the run-time values, where a float can be an infinity or \<open>nan\<close>: \<open>clamp\<close> is
  idempotent wherever it returns, returns \<open>min_value\<close> for swapped bounds, and stays
  within bounds that are in order; \<open>is_in_range\<close> is the conjunction of its two
  comparisons.
\<close>

lemma float_lt_irrefl: "\<not> float_lt x x"
  by (cases x) simp_all

lemma float_lt_NaN: "\<not> float_lt x NaN" "\<not> float_lt NaN x"
  by (cases x, simp_all)+

lemma float_lt_asym: "float_lt x y \<Longrightarrow> \<not> float_lt y x"
  by (cases x; cases y) simp_all

lemma float_lt_trans: "float_lt x y \<Longrightarrow> float_lt y z \<Longrightarrow> float_lt x z"
  by (cases x; cases y; cases z) simp_all

lemma float_le_iff: "float_le x y \<longleftrightarrow> x \<noteq> NaN \<and> y \<noteq> NaN \<and> \<not> float_lt y x"
  by (cases x; cases y) simp_all

lemma py_lt_Inr_cases:
  "py_lt a b = Inr c \<Longrightarrow>
     (\<exists>s t. a = PStr s \<and> b = PStr t \<and> c = (s < t))
     \<or> (\<exists>x y. num_of a = Some x \<and> num_of b = Some y \<and> c = float_lt x y)"
  by (cases a; cases b) simp_all

lemma py_lt_nums: "num_of a = Some x \<Longrightarrow> num_of b = Some y \<Longrightarrow> py_lt a b = Inr (float_lt x y)"
  by (cases a; cases b) simp_all

lemma clamp_dyn_idempotent:
  assumes "clamp_dyn v lo hi = Inr r"
  shows "clamp_dyn r lo hi = Inr r"
proof -
  from assms obtain c m d where c: "py_lt hi v = Inr c" and m: "m = (if c then hi else v)"
    and d: "py_lt lo m = Inr d" and r: "r = (if d then m else lo)"
    by (auto simp: clamp_dyn_def py_min_dyn_def py_max_dyn_def py_gt_def and_then_def
        split: sum.splits)
  from py_lt_Inr_cases [OF c] show ?thesis
  proof
    assume "\<exists>s t. hi = PStr s \<and> v = PStr t \<and> c = (s < t)"
    then obtain s t where st: "hi = PStr s" "v = PStr t" by blast
    with m d obtain u where u: "lo = PStr u" by (cases lo) (auto split: if_splits)
    show ?thesis
      using c m d r unfolding st u
      by (auto simp: clamp_dyn_def py_min_dyn_def py_max_dyn_def py_gt_def split: if_splits)
  next
    assume "\<exists>x y. num_of hi = Some x \<and> num_of v = Some y \<and> c = float_lt x y"
    then obtain x y where xy: "num_of hi = Some x" "num_of v = Some y" "c = float_lt x y" by blast
    with m obtain z where z: "num_of m = Some z" by (auto split: if_splits)
    with d obtain w where w: "num_of lo = Some w" and dw: "d = float_lt w z"
      using py_lt_Inr_cases [OF d] by auto
    show ?thesis
      using xy z w dw m r
      by (auto simp: clamp_dyn_def py_min_dyn_def py_max_dyn_def py_gt_def py_lt_nums
          float_lt_irrefl dest: float_lt_asym float_lt_trans simp del: py_lt.simps split: if_splits)
  qed
qed

lemma py_le_nums: "num_of a = Some x \<Longrightarrow> num_of b = Some y \<Longrightarrow> py_le a b = Inr (float_le x y)"
  by (cases a; cases b) simp_all

lemma clamp_dyn_swapped:
  assumes "py_gt min_value max_value = Inr True" "is_number v" "is_number min_value"
  shows "clamp_dyn v min_value max_value = Inr min_value"
proof -
  from assms(2,3) obtain y w where y: "num_of v = Some y" and w: "num_of min_value = Some w"
    by (auto simp: is_number_num_of)
  from assms(1) w obtain x where x: "num_of max_value = Some x" and lt: "float_lt x w"
    using py_lt_Inr_cases [of max_value min_value True] by (auto simp: py_gt_def)
  show ?thesis
    using x y w lt
    by (auto simp: clamp_dyn_def py_min_dyn_def py_max_dyn_def py_gt_def py_lt_nums
        dest: float_lt_asym float_lt_trans simp del: py_lt.simps)
qed

lemma clamp_dyn_within_bounds:
  assumes "py_le lo hi = Inr True" "is_number v" "is_number lo"
  shows "\<exists>r. clamp_dyn v lo hi = Inr r \<and> py_le lo r = Inr True \<and> py_le r hi = Inr True"
proof -
  from assms(2,3) obtain y w where y: "num_of v = Some y" and w: "num_of lo = Some w"
    by (auto simp: is_number_num_of)
  from assms(1) w obtain x where x: "num_of hi = Some x" and le: "float_le w x"
    by (cases lo; cases hi) (auto split: option.splits)
  from le have nn: "w \<noteq> NaN" "x \<noteq> NaN" "\<not> float_lt x w"
    by (simp_all add: float_le_iff)
  show ?thesis
    using x y w nn
    by (auto simp: clamp_dyn_def py_min_dyn_def py_max_dyn_def py_gt_def py_lt_nums py_le_nums
        float_le_iff float_lt_irrefl float_lt_NaN dest: float_lt_asym float_lt_trans
        simp del: py_lt.simps py_le.simps)
qed

lemma clamp_dyn_endpoints:
  assumes "py_le lo hi = Inr True" "is_number lo"
  shows "clamp_dyn lo lo hi = Inr lo"
    and "\<exists>r. clamp_dyn hi lo hi = Inr r \<and> num_of r = num_of hi"
proof -
  from assms(2) obtain w where w: "num_of lo = Some w"
    by (auto simp: is_number_num_of)
  from assms(1) w obtain x where x: "num_of hi = Some x" and le: "float_le w x"
    by (cases lo; cases hi) (auto split: option.splits)
  from le have nn: "w \<noteq> NaN" "x \<noteq> NaN" "\<not> float_lt x w"
    by (simp_all add: float_le_iff)
  show "clamp_dyn lo lo hi = Inr lo"
    using x w nn
    by (auto simp: clamp_dyn_def py_min_dyn_def py_max_dyn_def py_gt_def py_lt_nums
        float_lt_irrefl simp del: py_lt.simps)
  have "float_lt w x \<or> w = x"
    using nn by (cases w; cases x) auto
  then show "\<exists>r. clamp_dyn hi lo hi = Inr r \<and> num_of r = num_of hi"
    using x w nn
    by (auto simp: clamp_dyn_def py_min_dyn_def py_max_dyn_def py_gt_def py_lt_nums
        float_lt_irrefl simp del: py_lt.simps)
qed

lemma is_in_range_dyn_numbers:
  assumes "num_of v = Some y" "num_of lo = Some w" "num_of hi = Some x"
  shows "is_in_range_dyn v lo hi (PBool True) = Inr (PBool (float_le w y \<and> float_le y x))"
    and "is_in_range_dyn v lo hi (PBool False) = Inr (PBool (float_lt w y \<and> float_lt y x))"
  using assms
  by (auto simp: is_in_range_dyn_def py_lt_nums py_le_nums simp del: py_lt.simps py_le.simps)

section \<open>Determinism and the interpreter state\<close>

text \<open>
  Compiling a pattern in a coherent cache returns the compiled form of that pattern,
  whether it was cached or not, leaves the cache coherent, and changes nothing outside
  the cache.
\<close>

lemma re_compile_result: "cache_ok st \<Longrightarrow> fst (re_compile pattern st) = pattern"
  by (auto simp: re_compile_def cache_ok_def list_all_iff split: option.splits dest: map_of_SomeD)

lemma list_all_tl: "list_all P xs \<Longrightarrow> list_all P (tl xs)"
  by (cases xs) simp_all

lemma re_compile_cache_ok: "cache_ok st \<Longrightarrow> cache_ok (snd (re_compile pattern st))"
  by (auto simp: re_compile_def cache_ok_def list_all_tl split: option.splits)

lemma re_compile_world: "world (snd (re_compile pattern st)) = world st"
  by (simp add: re_compile_def split: option.splits)

lemma re_search_st_result: "cache_ok st \<Longrightarrow> fst (re_search_st pattern s st) = re_search pattern s"
  using re_compile_result [of st pattern]
  by (simp add: re_search_st_def case_prod_beta)

lemma re_search_st_cache_ok: "cache_ok st \<Longrightarrow> cache_ok (snd (re_search_st pattern s st))"
  using re_compile_cache_ok [of st pattern]
  by (simp add: re_search_st_def case_prod_beta)

lemma re_search_st_world: "world (snd (re_search_st pattern s st)) = world st"
  using re_compile_world [of pattern st]
  by (simp add: re_search_st_def case_prod_beta)

lemma re_match_st_result: "cache_ok st \<Longrightarrow> fst (re_match_st pattern s st) = re_match pattern s"
  using re_compile_result [of st pattern]
  by (simp add: re_match_st_def case_prod_beta)

lemma re_match_st_cache_ok: "cache_ok st \<Longrightarrow> cache_ok (snd (re_match_st pattern s st))"
  using re_compile_cache_ok [of st pattern]
  by (simp add: re_match_st_def case_prod_beta)

lemma re_match_st_world: "world (snd (re_match_st pattern s st)) = world st"
  using re_compile_world [of pattern st]
  by (simp add: re_match_st_def case_prod_beta)

lemma is_valid_hex_color_st_result:
  "cache_ok st \<Longrightarrow> fst (is_valid_hex_color_st color st) = is_valid_hex_color color"
  using re_match_st_result [of st hex_color_pattern color]
  by (simp add: is_valid_hex_color_st_def is_valid_hex_color_def case_prod_beta)

lemma is_valid_hex_color_st_cache_ok:
  "cache_ok st \<Longrightarrow> cache_ok (snd (is_valid_hex_color_st color st))"
  using re_match_st_cache_ok [of st hex_color_pattern color]
  by (simp add: is_valid_hex_color_st_def case_prod_beta)

lemma is_valid_hex_color_st_world: "world (snd (is_valid_hex_color_st color st)) = world st"
  using re_match_st_world [of hex_color_pattern color st]
  by (simp add: is_valid_hex_color_st_def case_prod_beta)

lemma is_valid_password_st_all:
  assumes "cache_ok st"
  shows "fst (is_valid_password_st password n rn ru st) = is_valid_password password n rn ru
    \<and> cache_ok (snd (is_valid_password_st password n rn ru st))
    \<and> world (snd (is_valid_password_st password n rn ru st)) = world st"
proof -
  obtain m1 st1 where 1: "re_search_st (CharSet [(CHR ''A'', CHR ''Z'')]) password st = (m1, st1)"
    by (cases "re_search_st (CharSet [(CHR ''A'', CHR ''Z'')]) password st")
  have m1: "m1 = re_search (CharSet [(CHR ''A'', CHR ''Z'')]) password"
    and ok1: "cache_ok st1" and w1: "world st1 = world st"
    using re_search_st_result [OF assms, of "CharSet [(CHR ''A'', CHR ''Z'')]" password]
      re_search_st_cache_ok [OF assms, of "CharSet [(CHR ''A'', CHR ''Z'')]" password]
      re_search_st_world [of "CharSet [(CHR ''A'', CHR ''Z'')]" password st]
    unfolding 1 by simp_all
  obtain m2 st2 where 2: "re_search_st Digit password st1 = (m2, st2)"
    by (cases "re_search_st Digit password st1")
  have m2: "m2 = re_search Digit password" and ok2: "cache_ok st2" and w2: "world st2 = world st"
    using re_search_st_result [OF ok1, of Digit password]
      re_search_st_cache_ok [OF ok1, of Digit password]
      re_search_st_world [of Digit password st1] w1
    unfolding 2 by simp_all
  obtain m3 st3 where 3: "re_search_st Digit password st = (m3, st3)"
    by (cases "re_search_st Digit password st")
  have m3: "m3 = re_search Digit password" and ok3: "cache_ok st3" and w3: "world st3 = world st"
    using re_search_st_result [OF assms, of Digit password]
      re_search_st_cache_ok [OF assms, of Digit password]
      re_search_st_world [of Digit password st]
    unfolding 3 by simp_all
  show ?thesis
    unfolding is_valid_password_st_def is_valid_password_def 1 2 3
    using assms m1 ok1 w1 m2 ok2 w2 m3 ok3 w3 1 2 3
    by (simp add: 1 2 3)
qed

text \<open>
  C8. Every public function is deterministic: in any two states of the interpreter
  with a coherent cache, two invocations with equal arguments return equal results.
  \<open>clamp\<close>, \<open>is_in_range\<close>, \<open>validate_length\<close> and \<open>contains_only_allowed_chars\<close> have
  no side effect: they return the state as it was. \<open>is_valid_password\<close> and
  \<open>is_valid_hex_color\<close> leave everything outside the cache of module \<open>re\<close> as it was,
  and leave the cache coherent.
\<close>

theorem public_functions_deterministic:
  assumes "cache_ok st" "cache_ok st'"
  shows "fst (clamp_st v lo hi st) = fst (clamp_st v lo hi st')
    \<and> snd (clamp_st v lo hi st) = st
    \<and> fst (is_in_range_st w a b inclusive st) = fst (is_in_range_st w a b inclusive st')
    \<and> snd (is_in_range_st w a b inclusive st) = st
    \<and> fst (validate_length_st str k m st) = fst (validate_length_st str k m st')
    \<and> snd (validate_length_st str k m st) = st
    \<and> fst (contains_only_allowed_chars_st s allowed st)
        = fst (contains_only_allowed_chars_st s allowed st')
    \<and> snd (contains_only_allowed_chars_st s allowed st) = st
    \<and> fst (is_valid_password_st password n rn ru st)
        = fst (is_valid_password_st password n rn ru st')
    \<and> world (snd (is_valid_password_st password n rn ru st)) = world st
    \<and> cache_ok (snd (is_valid_password_st password n rn ru st))
    \<and> fst (is_valid_hex_color_st color st) = fst (is_valid_hex_color_st color st')
    \<and> world (snd (is_valid_hex_color_st color st)) = world st
    \<and> cache_ok (snd (is_valid_hex_color_st color st))"
  using is_valid_password_st_all [OF assms(1), of password n rn ru]
    is_valid_password_st_all [OF assms(2), of password n rn ru]
    is_valid_hex_color_st_result [OF assms(1), of color]
    is_valid_hex_color_st_result [OF assms(2), of color]
    is_valid_hex_color_st_cache_ok [OF assms(1), of color]
    is_valid_hex_color_st_world [of color st]
  by (simp add: clamp_st_def is_in_range_st_def validate_length_st_def
      contains_only_allowed_chars_st_def)

theorem public_functions_deterministic_witness:
  "cache_ok \<lparr>re_cache = [], world = ()\<rparr>
   \<and> cache_ok \<lparr>re_cache = [(hex_color_pattern, hex_color_pattern), (Digit, Digit)], world = ()\<rparr>
   \<and> fst (clamp_st (15 :: int) 0 10 \<lparr>re_cache = [], world = ()\<rparr>)
       = fst (clamp_st (15 :: int) 0 10
           \<lparr>re_cache = [(hex_color_pattern, hex_color_pattern), (Digit, Digit)], world = ()\<rparr>)
   \<and> fst (is_valid_password_st (codepoints ''Abcdefg1'') 8 True True \<lparr>re_cache = [], world = ()\<rparr>)
       = fst (is_valid_password_st (codepoints ''Abcdefg1'') 8 True True
           \<lparr>re_cache = [(hex_color_pattern, hex_color_pattern), (Digit, Digit)], world = ()\<rparr>)
   \<and> world (snd (is_valid_password_st (codepoints ''Abcdefg1'') 8 True True
         \<lparr>re_cache = [], world = ()\<rparr>)) = ()
   \<and> cache_ok (snd (is_valid_password_st (codepoints ''Abcdefg1'') 8 True True
         \<lparr>re_cache = [], world = ()\<rparr>))
   \<and> fst (is_valid_hex_color_st (codepoints ''#fff'') \<lparr>re_cache = [], world = ()\<rparr>)
       = fst (is_valid_hex_color_st (codepoints ''#fff'')
           \<lparr>re_cache = [(hex_color_pattern, hex_color_pattern), (Digit, Digit)], world = ()\<rparr>)
   \<and> cache_ok (snd (is_valid_hex_color_st (codepoints ''#fff'') \<lparr>re_cache = [], world = ()\<rparr>))
   \<and> snd (validate_length_st (codepoints ''hello'') 1 (Some 10) \<lparr>re_cache = [], world = ()\<rparr>)
       = \<lparr>re_cache = [], world = ()\<rparr>"
proof -
  have ok: "cache_ok \<lparr>re_cache = [], world = ()\<rparr>"
    "cache_ok \<lparr>re_cache = [(hex_color_pattern, hex_color_pattern), (Digit, Digit)], world = ()\<rparr>"
    by (simp_all add: cache_ok_def)
  from public_functions_deterministic [OF ok, where v = "15 :: int" and lo = 0 and hi = 10
      and w = "5 :: int" and a = 0 and b = 10 and inclusive = True
      and str = "codepoints ''hello''" and k = 1 and m = "Some 10"
      and s = "codepoints ''abc''" and allowed = "codepoints ''abcdef''"
      and password = "codepoints ''Abcdefg1''" and n = 8 and rn = True and ru = True
      and color = "codepoints ''#fff''"] ok
  show ?thesis by simp
qed

text \<open>
  C8 as the specification words it says that no invocation reads or writes any state
  outside its arguments. The two functions that search with a pattern do both. From an
  empty cache \<open>is_valid_hex_color\<close> returns another state than it received, and
  \<open>is_valid_password\<close> leaves its two patterns in the cache. And the cache is read: with
  an entry that gives the pattern of \<open>is_valid_hex_color\<close> the compiled form of \<open>\d\<close>,
  the colour \<open>#fff\<close> is rejected, where it is accepted from an empty cache. This is why
  the theorem above asks for coherent caches.
\<close>

lemma hex_fff: "re_match hex_color_pattern (codepoints ''#fff'') \<noteq> None"
  using is_valid_hex_color_examples unfolding is_valid_hex_color_def by blast

lemma digit_fff: "re_match Digit (codepoints ''#fff'') = None"
  by (simp add: re_match_def codepoints_def is_decimal_def unicode_decimal_digits_def)

lemma upper_Abcdefg1: "re_search (CharSet [(CHR ''A'', CHR ''Z'')]) (codepoints ''Abcdefg1'') \<noteq> None"
  unfolding search_upper by (simp add: codepoints_def)

lemma digit_Abcdefg1: "re_search Digit (codepoints ''Abcdefg1'') \<noteq> None"
  unfolding search_digit is_decimal_codepoints by simp

theorem public_functions_deterministic_counterexample:
  "snd (is_valid_hex_color_st (codepoints ''#fff'') \<lparr>re_cache = [], world = ()\<rparr>)
     \<noteq> \<lparr>re_cache = [], world = ()\<rparr>
   \<and> re_cache (snd (is_valid_password_st (codepoints ''Abcdefg1'') 8 True True
         \<lparr>re_cache = [], world = ()\<rparr>))
       = [(CharSet [(CHR ''A'', CHR ''Z'')], CharSet [(CHR ''A'', CHR ''Z'')]), (Digit, Digit)]
   \<and> fst (is_valid_hex_color_st (codepoints ''#fff'') \<lparr>re_cache = [], world = ()\<rparr>) = True
   \<and> fst (is_valid_hex_color_st (codepoints ''#fff'')
         \<lparr>re_cache = [(hex_color_pattern, Digit)], world = ()\<rparr>) = False"
proof -
  have len: "\<not> int (length (codepoints ''Abcdefg1'')) < 8"
    by (simp add: codepoints_def)
  have 1: "snd (is_valid_hex_color_st (codepoints ''#fff'') \<lparr>re_cache = [], world = ()\<rparr>)
     \<noteq> \<lparr>re_cache = [], world = ()\<rparr>"
    by (simp add: is_valid_hex_color_st_def re_match_st_def re_compile_def)
  have 2: "re_cache (snd (is_valid_password_st (codepoints ''Abcdefg1'') 8 True True
         \<lparr>re_cache = [], world = ()\<rparr>))
       = [(CharSet [(CHR ''A'', CHR ''Z'')], CharSet [(CHR ''A'', CHR ''Z'')]), (Digit, Digit)]"
    using upper_Abcdefg1 digit_Abcdefg1 len
    by (simp add: is_valid_password_st_def re_search_st_def re_compile_def)
  have 3: "fst (is_valid_hex_color_st (codepoints ''#fff'') \<lparr>re_cache = [], world = ()\<rparr>) = True"
    using hex_fff by (simp add: is_valid_hex_color_st_def re_match_st_def re_compile_def)
  have 4: "fst (is_valid_hex_color_st (codepoints ''#fff'')
         \<lparr>re_cache = [(hex_color_pattern, Digit)], world = ()\<rparr>) = False"
    using digit_fff by (simp add: is_valid_hex_color_st_def re_match_st_def re_compile_def)
  from 1 2 3 4 show ?thesis by blast
qed

section \<open>Equal arguments of different types\<close>

text \<open>
  Python's \<open>==\<close> holds between values of different types: \<open>1 == 1.0\<close> and \<open>True == 1\<close>. On
  the run-time values, arguments that are equal in this sense give equal results too:
  every operation of the source reads of a value no more than its \<open>shape\<close>, and equal
  values have the same shape. With equal arguments both invocations raise \<open>TypeError\<close>
  or both return, \<open>clamp\<close> equal numbers (the one may be the \<open>int\<close> 1 where the other
  is the \<open>float\<close> 1.0) and the validators the same boolean.
\<close>

lemma float_eq_D: "float_eq x y \<Longrightarrow> x = y"
  by (cases x; cases y) simp_all

lemma py_eq_shape: "py_eq a b \<Longrightarrow> shape a = shape b"
  by (cases a; cases b) (auto simp: shape_def dest: float_eq_D)

lemma same_arg_shape: "same_arg a b \<Longrightarrow> shape a = shape b"
  by (auto simp: same_arg_def py_eq_shape)

lemma py_lt_by_shape:
  "py_lt a b =
     (case (shape a, shape b) of
        ((na, Some s, ea), (nb, Some t, eb)) \<Rightarrow> Inr (s < t)
      | ((Some x, sa, ea), (Some y, sb, eb)) \<Rightarrow> Inr (float_lt x y)
      | _ \<Rightarrow> Inl TypeError)"
  by (cases a; cases b) (simp_all add: shape_def)

lemma py_le_by_shape:
  "py_le a b =
     (case (shape a, shape b) of
        ((na, Some s, ea), (nb, Some t, eb)) \<Rightarrow> Inr (s \<le> t)
      | ((Some x, sa, ea), (Some y, sb, eb)) \<Rightarrow> Inr (float_le x y)
      | _ \<Rightarrow> Inl TypeError)"
  by (cases a; cases b) (simp_all add: shape_def)

lemma py_lt_shape: "shape a = shape a' \<Longrightarrow> shape b = shape b' \<Longrightarrow> py_lt a b = py_lt a' b'"
  by (simp only: py_lt_by_shape)

lemma py_le_shape: "shape a = shape a' \<Longrightarrow> shape b = shape b' \<Longrightarrow> py_le a b = py_le a' b'"
  by (simp only: py_le_by_shape)

lemma py_gt_shape: "shape a = shape a' \<Longrightarrow> shape b = shape b' \<Longrightarrow> py_gt a b = py_gt a' b'"
  unfolding py_gt_def by (rule py_lt_shape)

lemma truthy_shape: "shape a = shape b \<Longrightarrow> truthy a = truthy b"
  by (cases a; cases b) (auto simp: shape_def of_bool_def split: if_splits)

lemma str_shape: "shape a = shape b \<Longrightarrow> a = PStr s \<Longrightarrow> b = PStr s"
  by (cases b) (simp_all add: shape_def)

lemma none_shape: "shape a = shape b \<Longrightarrow> (a = PNone) = (b = PNone)"
  by (simp add: shape_def)

lemma py_len_shape: "shape a = shape b \<Longrightarrow> py_len a = py_len b"
  by (cases a; cases b) (simp_all add: shape_def)

lemma re_search_dyn_shape: "shape a = shape b \<Longrightarrow> re_search_dyn r a = re_search_dyn r b"
  by (cases a; cases b) (simp_all add: shape_def)

lemma re_match_dyn_shape: "shape a = shape b \<Longrightarrow> re_match_dyn r a = re_match_dyn r b"
  by (cases a; cases b) (simp_all add: shape_def)

lemma py_in_shape: "shape a = shape b \<Longrightarrow> py_in c a = py_in c b"
  by (cases a; cases b) (simp_all add: shape_def)

lemma py_all_in_shape:
  assumes "shape a = shape b"
  shows "py_all_in s a = py_all_in s b"
proof (induction s)
  case Nil
  show ?case by simp
next
  case (Cons c cs)
  have "py_in c a = py_in c b" using assms by (rule py_in_shape)
  with Cons show ?case by (simp only: py_all_in.simps)
qed

lemma same_outcome_refl: "same_outcome x x"
  by (cases x) (simp_all add: same_arg_def)

lemma py_min_dyn_same:
  assumes "same_arg a a'" "same_arg b b'"
  shows "same_outcome (py_min_dyn a b) (py_min_dyn a' b')"
proof -
  have eq: "py_lt b a = py_lt b' a'"
    by (rule py_lt_shape) (rule same_arg_shape, rule assms)+
  show ?thesis
  proof (cases "py_lt b' a'")
    case (Inl e)
    show ?thesis
      unfolding py_min_dyn_def eq Inl by simp
  next
    case (Inr c)
    show ?thesis
      unfolding py_min_dyn_def eq Inr using assms by simp
  qed
qed

lemma py_max_dyn_same:
  assumes "same_arg a a'" "same_arg b b'"
  shows "same_outcome (py_max_dyn a b) (py_max_dyn a' b')"
proof -
  have eq: "py_gt b a = py_gt b' a'"
    by (rule py_gt_shape) (rule same_arg_shape, rule assms)+
  show ?thesis
  proof (cases "py_gt b' a'")
    case (Inl e)
    show ?thesis
      unfolding py_max_dyn_def eq Inl by simp
  next
    case (Inr c)
    show ?thesis
      unfolding py_max_dyn_def eq Inr using assms by simp
  qed
qed

lemma clamp_dyn_same:
  assumes "same_arg v v'" "same_arg lo lo'" "same_arg hi hi'"
  shows "same_outcome (clamp_dyn v lo hi) (clamp_dyn v' lo' hi')"
proof -
  have m: "same_outcome (py_min_dyn v hi) (py_min_dyn v' hi')"
    using assms(1) assms(3) by (rule py_min_dyn_same)
  show ?thesis
  proof (cases "py_min_dyn v hi")
    case (Inl e)
    with m obtain e' where e': "py_min_dyn v' hi' = Inl e'" "e = e'"
      by (cases "py_min_dyn v' hi'") simp_all
    show ?thesis
      unfolding clamp_dyn_def Inl e'(1) using e'(2) by simp
  next
    case (Inr x)
    with m obtain x' where x': "py_min_dyn v' hi' = Inr x'" "same_arg x x'"
      by (cases "py_min_dyn v' hi'") simp_all
    have "same_outcome (py_max_dyn lo x) (py_max_dyn lo' x')"
      using assms(2) x'(2) by (rule py_max_dyn_same)
    then show ?thesis
      unfolding clamp_dyn_def Inr x'(1) by simp
  qed
qed

lemma is_valid_password_dyn_same:
  assumes "same_arg password password'" "same_arg n n'" "same_arg rn rn'" "same_arg ru ru'"
  shows "is_valid_password_dyn password n rn ru = is_valid_password_dyn password' n' rn' ru'"
proof -
  have 1: "py_len password = py_len password'"
    by (rule py_len_shape) (rule same_arg_shape, rule assms)
  have 2: "py_lt (PInt k) n = py_lt (PInt k) n'" for k
    by (rule py_lt_shape) (rule refl, rule same_arg_shape, rule assms)
  have 3: "truthy rn = truthy rn'" "truthy ru = truthy ru'"
    by (rule truthy_shape, rule same_arg_shape, rule assms)+
  have 4: "re_search_dyn r password = re_search_dyn r password'" for r
    by (rule re_search_dyn_shape) (rule same_arg_shape, rule assms)
  show ?thesis
    unfolding is_valid_password_dyn_def 1 2 3 4 ..
qed

lemma is_valid_hex_color_dyn_same:
  assumes "same_arg color color'"
  shows "is_valid_hex_color_dyn color = is_valid_hex_color_dyn color'"
proof -
  have 1: "re_match_dyn r color = re_match_dyn r color'" for r
    by (rule re_match_dyn_shape) (rule same_arg_shape, rule assms)
  show ?thesis
    unfolding is_valid_hex_color_dyn_def 1 ..
qed

lemma is_in_range_dyn_same:
  assumes "same_arg v v'" "same_arg lo lo'" "same_arg hi hi'" "same_arg inclusive inclusive'"
  shows "is_in_range_dyn v lo hi inclusive = is_in_range_dyn v' lo' hi' inclusive'"
proof -
  have 1: "py_le lo v = py_le lo' v'" "py_le v hi = py_le v' hi'"
    by (rule py_le_shape, (rule same_arg_shape, rule assms)+)+
  have 2: "py_lt lo v = py_lt lo' v'" "py_lt v hi = py_lt v' hi'"
    by (rule py_lt_shape, (rule same_arg_shape, rule assms)+)+
  have 3: "truthy inclusive = truthy inclusive'"
    by (rule truthy_shape) (rule same_arg_shape, rule assms)
  show ?thesis
    unfolding is_in_range_dyn_def 1 2 3 ..
qed

lemma validate_length_dyn_same:
  assumes "same_arg s s'" "same_arg n n'" "same_arg m m'"
  shows "validate_length_dyn s n m = validate_length_dyn s' n' m'"
proof -
  have 1: "py_len s = py_len s'"
    by (rule py_len_shape) (rule same_arg_shape, rule assms)
  have 2: "py_lt (PInt k) n = py_lt (PInt k) n'" for k
    by (rule py_lt_shape) (rule refl, rule same_arg_shape, rule assms)
  have 3: "py_gt (PInt k) m = py_gt (PInt k) m'" for k
    by (rule py_gt_shape) (rule refl, rule same_arg_shape, rule assms)
  have 4: "(m \<noteq> PNone) = (m' \<noteq> PNone)"
    using none_shape [OF same_arg_shape [OF assms(3)]] by simp
  show ?thesis
    unfolding validate_length_dyn_def 1 2 3 4 ..
qed

lemma contains_only_allowed_chars_dyn_by_shape:
  "contains_only_allowed_chars_dyn s allowed =
     (case shape s of
        (n, Some x, e) \<Rightarrow> py_all_in x allowed
      | _ \<Rightarrow> Inl TypeError)"
  by (cases s) (simp_all add: shape_def)

lemma contains_only_allowed_chars_dyn_same:
  assumes "same_arg s s'" "same_arg allowed allowed'"
  shows "contains_only_allowed_chars_dyn s allowed = contains_only_allowed_chars_dyn s' allowed'"
proof -
  have 1: "shape s = shape s'"
    using assms(1) by (rule same_arg_shape)
  have 2: "py_all_in x allowed = py_all_in x allowed'" for x
    by (rule py_all_in_shape) (rule same_arg_shape, rule assms)
  show ?thesis
    unfolding contains_only_allowed_chars_dyn_by_shape 1 2 ..
qed

lemma equal_arguments_equal_results:
  "(same_arg v v' \<and> same_arg lo lo' \<and> same_arg hi hi' \<longrightarrow>
        same_outcome (clamp_dyn v lo hi) (clamp_dyn v' lo' hi'))
   \<and> (same_arg password password' \<and> same_arg n n' \<and> same_arg rn rn' \<and> same_arg ru ru' \<longrightarrow>
        is_valid_password_dyn password n rn ru = is_valid_password_dyn password' n' rn' ru')
   \<and> (same_arg color color' \<longrightarrow> is_valid_hex_color_dyn color = is_valid_hex_color_dyn color')
   \<and> (same_arg w w' \<and> same_arg a a' \<and> same_arg b b' \<and> same_arg inclusive inclusive' \<longrightarrow>
        is_in_range_dyn w a b inclusive = is_in_range_dyn w' a' b' inclusive')
   \<and> (same_arg str str' \<and> same_arg k k' \<and> same_arg m m' \<longrightarrow>
        validate_length_dyn str k m = validate_length_dyn str' k' m')
   \<and> (same_arg s s' \<and> same_arg allowed allowed' \<longrightarrow>
        contains_only_allowed_chars_dyn s allowed = contains_only_allowed_chars_dyn s' allowed')"
proof (intro conjI impI)
  assume "same_arg v v' \<and> same_arg lo lo' \<and> same_arg hi hi'"
  then show "same_outcome (clamp_dyn v lo hi) (clamp_dyn v' lo' hi')"
    by (intro clamp_dyn_same) simp_all
next
  assume "same_arg password password' \<and> same_arg n n' \<and> same_arg rn rn' \<and> same_arg ru ru'"
  then show "is_valid_password_dyn password n rn ru = is_valid_password_dyn password' n' rn' ru'"
    by (intro is_valid_password_dyn_same) simp_all
next
  assume "same_arg color color'"
  then show "is_valid_hex_color_dyn color = is_valid_hex_color_dyn color'"
    by (rule is_valid_hex_color_dyn_same)
next
  assume "same_arg w w' \<and> same_arg a a' \<and> same_arg b b' \<and> same_arg inclusive inclusive'"
  then show "is_in_range_dyn w a b inclusive = is_in_range_dyn w' a' b' inclusive'"
    by (intro is_in_range_dyn_same) simp_all
next
  assume "same_arg str str' \<and> same_arg k k' \<and> same_arg m m'"
  then show "validate_length_dyn str k m = validate_length_dyn str' k' m'"
    by (intro validate_length_dyn_same) simp_all
next
  assume "same_arg s s' \<and> same_arg allowed allowed'"
  then show "contains_only_allowed_chars_dyn s allowed = contains_only_allowed_chars_dyn s' allowed'"
    by (intro contains_only_allowed_chars_dyn_same) simp_all
qed

end
